theory Spec2Isabelle
  imports Complex_Main
begin

section \<open>depccg: the parser front end (depccg/parser.pyx)\<close>

text \<open>
  The Cython module \<^verbatim>\<open>depccg/parser.pyx\<close> holds the constructors of the English and the
  Japanese parser, the loaders, and \<^verbatim>\<open>_parse_doc_tag_and_dep\<close>, which checks the input
  matrices, hands the batch to the native A* engine \<^verbatim>\<open>ParseSentences\<close> and cuts the
  engine's answer down to the n best trees of each sentence.

  Python exceptions are values of \<open>error\<close>; a function that may raise returns a sum with
  the error on the left. numpy arrays are objects that the caller and the callee share, so
  they live in a store and functions that write to them return the store they leave behind,
  also when they raise.
\<close>

subsection \<open>Exceptions, arrays and the store\<close>

datatype error =
  KeyError | IndexError | AssertionError | RuntimeError | OverflowError | AttributeError | ValueError

text \<open>
  The dtype of a numpy array: \<^verbatim>\<open>float32\<close>, which is the C type \<^verbatim>\<open>float\<close>,
  \<^verbatim>\<open>float64\<close>, or another one, by its name.
\<close>

datatype dtype = Float32 | Float64 | Other string

text \<open>
  A two-dimensional numpy array: the number of columns, the rows, the dtype, and whether
  the array lies in memory row after row without gaps (\<^verbatim>\<open>flags.c_contiguous\<close>). The
  type \<open>'a\<close> is the type of the values that the cells hold.
\<close>

record 'a ndarray =
  ncols :: nat
  rows :: "'a list list"
  dtype :: dtype
  c_contiguous :: bool

text \<open>
  An array as \<^verbatim>\<open>np.array(values).reshape(shape).astype(np.float32)\<close> makes it (lines 204,
  210 and 211): of dtype \<^verbatim>\<open>float32\<close> and C-contiguous.
\<close>

definition float32 :: "nat \<Rightarrow> 'a list list \<Rightarrow> 'a ndarray" where
  "float32 n cells = \<lparr>ncols = n, rows = cells, dtype = Float32, c_contiguous = True\<rparr>"

text \<open>An array as \<^verbatim>\<open>np.array(values)\<close> makes it of Python floats: of dtype \<^verbatim>\<open>float64\<close>.\<close>

definition float64 :: "nat \<Rightarrow> 'a list list \<Rightarrow> 'a ndarray" where
  "float64 n cells = \<lparr>ncols = n, rows = cells, dtype = Float64, c_contiguous = True\<rparr>"

definition shape :: "'a ndarray \<Rightarrow> nat \<times> nat" where
  "shape m = (length (rows m), ncols m)"

type_synonym addr = nat

type_synonym 'a heap = "addr \<Rightarrow> 'a ndarray"

text \<open>
  numpy reads an index \<open>i\<close> on an axis of size \<open>n\<close> as \<open>i\<close> when \<open>0 \<le> i < n\<close>, as
  \<open>i + n\<close> when \<open>-n \<le> i < 0\<close>, and raises IndexError otherwise.
\<close>

definition axis_index :: "nat \<Rightarrow> int \<Rightarrow> error + nat" where
  "axis_index n i =
     (if 0 \<le> i \<and> i < int n then Inr (nat i)
      else if - int n \<le> i \<and> i < 0 then Inr (nat (i + int n))
      else Inl IndexError)"

text \<open>\<^verbatim>\<open>m[i, :] = v\<close>: every cell of row \<open>i\<close> becomes \<open>v\<close>.\<close>

definition set_row :: "'a ndarray \<Rightarrow> int \<Rightarrow> 'a \<Rightarrow> error + 'a ndarray" where
  "set_row m i v =
     (case axis_index (length (rows m)) i of
        Inl e \<Rightarrow> Inl e
      | Inr r \<Rightarrow> Inr (m\<lparr>rows := (rows m)[r := replicate (ncols m) v]\<rparr>))"

text \<open>\<^verbatim>\<open>m[i, j] = v\<close>: one cell.\<close>

definition set_item :: "'a ndarray \<Rightarrow> int \<Rightarrow> int \<Rightarrow> 'a \<Rightarrow> error + 'a ndarray" where
  "set_item m i j v =
     (case axis_index (length (rows m)) i of
        Inl e \<Rightarrow> Inl e
      | Inr r \<Rightarrow>
          (case axis_index (ncols m) j of
             Inl e \<Rightarrow> Inl e
           | Inr k \<Rightarrow> Inr (m\<lparr>rows := (rows m)[r := (rows m ! r)[k := v]]\<rparr>)))"

subsection \<open>Terminal constraints\<close>

text \<open>
  \<^verbatim>\<open>pseudo_neginf = -10e10\<close>: the Python float literal \<open>10e10\<close> is ten times ten to the
  tenth.
\<close>

definition pseudo_neginf :: real where
  "pseudo_neginf = - (10 * 10 ^ 10)"

text \<open>
  \<^verbatim>\<open>tag_dict = {tag: i for i, tag in enumerate(tag_list)}\<close>: a later occurrence of a tag
  overwrites the index of an earlier one.
\<close>

definition tag_dict :: "'c list \<Rightarrow> ('c \<rightharpoonup> nat)" where
  "tag_dict tag_list = fold (\<lambda>(i, tag) d. d(tag \<mapsto> i)) (enumerate 0 tag_list) Map.empty"

text \<open>
  The loop of \<^verbatim>\<open>build_terminal_constraints\<close> over the constraints \<open>(cat, i)\<close>, on the
  array at address \<open>tag_probs\<close>. \<open>cast\<close> is the conversion of a Python number to the
  array's dtype, which numpy applies on each store. The loop stops at the first exception and
  keeps what it has written until then: the first of the two stores of a round stands when
  the second one raises.
\<close>

fun constrain_rows ::
  "(real \<Rightarrow> 'a) \<Rightarrow> ('c \<rightharpoonup> nat) \<Rightarrow> addr \<Rightarrow> ('c \<times> int) list \<Rightarrow> 'a heap \<Rightarrow> error option \<times> 'a heap"
where
  "constrain_rows cast d tag_probs [] h = (None, h)"
| "constrain_rows cast d tag_probs ((cat, i) # constraints) h =
     (case d cat of
        None \<Rightarrow> (Some KeyError, h)
      | Some cat_index \<Rightarrow>
          (case set_row (h tag_probs) i (cast pseudo_neginf) of
             Inl e \<Rightarrow> (Some e, h)
           | Inr m1 \<Rightarrow>
               (case set_item m1 i (int cat_index) (cast 0) of
                  Inl e \<Rightarrow> (Some e, h(tag_probs := m1))
                | Inr m2 \<Rightarrow> constrain_rows cast d tag_probs constraints (h(tag_probs := m2)))))"

definition build_terminal_constraints ::
  "(real \<Rightarrow> 'a) \<Rightarrow> ('c \<times> int) list \<Rightarrow> addr \<Rightarrow> 'c list \<Rightarrow> 'a heap \<Rightarrow> (error + addr) \<times> 'a heap"
where
  "build_terminal_constraints cast constraints tag_probs tag_list h =
     (case constrain_rows cast (tag_dict tag_list) tag_probs constraints h of
        (Some e, h') \<Rightarrow> (Inl e, h')
      | (None, h') \<Rightarrow> (Inr tag_probs, h'))"

subsection \<open>Evaluating Python code that may raise\<close>

text \<open>Sequencing: the second computation runs when the first one did not raise.\<close>

definition and_then :: "error + 'x \<Rightarrow> ('x \<Rightarrow> error + 'y) \<Rightarrow> error + 'y" where
  "and_then r f = (case r of Inl e \<Rightarrow> Inl e | Inr x \<Rightarrow> f x)"

text \<open>
  A list comprehension \<^verbatim>\<open>[f(x) for x in xs]\<close>: the elements are evaluated from left to
  right and the first exception ends the evaluation.
\<close>

fun comprehension :: "('x \<Rightarrow> error + 'y) \<Rightarrow> 'x list \<Rightarrow> error + 'y list" where
  "comprehension f [] = Inr []"
| "comprehension f (x # xs) =
     and_then (f x) (\<lambda>y. and_then (comprehension f xs) (\<lambda>ys. Inr (y # ys)))"

subsection \<open>The parser object\<close>

text \<open>
  An entry of \<^verbatim>\<open>possible_root_cats\<close> is a string or a \<^verbatim>\<open>Category\<close> object; the type
  \<open>'c\<close> stands for the class \<^verbatim>\<open>Category\<close> of \<^verbatim>\<open>depccg.cat\<close>.
\<close>

datatype 'c py_cat = Str string | Cat 'c

text \<open>
  An object of the class \<^verbatim>\<open>EnglishCCGParser\<close> or of \<^verbatim>\<open>JapaneseCCGParser\<close>, which
  inherits its attributes. The fields are the attributes that the class body declares
  (lines 51 to 65); \<^verbatim>\<open>binary_rules\<close> may hold \<^verbatim>\<open>None\<close>. \<^verbatim>\<open>max_steps\<close>, which both
  constructors assign and \<^verbatim>\<open>_parse_doc_tag_and_dep\<close> reads, is not among them. An
  attribute that the class does not declare lives in the instance dictionary
  \<^verbatim>\<open>__dict__\<close>, and an instance of a \<^verbatim>\<open>cdef class\<close> has none: \<open>attrs\<close> is \<open>None\<close>
  for an instance of one of the two classes themselves, and the dictionary (its entries
  with an integer value) for an instance of a subclass written in Python.
\<close>

record ('c, 'op, 't) parser =
  binary_rules :: "'op list option"
  possible_root_cats :: "'c py_cat list"
  category_dict :: "string \<rightharpoonup> 'c list"
  tag_list :: "'c list"
  unary_rules :: "('c \<times> 'c) list"
  seen_rules :: "('c \<times> 'c) list"
  beta :: real
  use_beta :: bool
  use_category_dict :: bool
  use_seen_rules :: bool
  pruning_size :: int
  nbest :: int
  max_length :: int
  tagger :: "'t option"
  lang :: string
  attrs :: "(string \<rightharpoonup> int) option"

text \<open>
  The keyword arguments of the constructors. \<open>None\<close> is an argument the caller left out
  (for \<^verbatim>\<open>binary_rules\<close> and \<^verbatim>\<open>possible_root_cats\<close>, whose default is \<^verbatim>\<open>None\<close>, also
  one passed as \<^verbatim>\<open>None\<close>).
\<close>

record ('c, 'op) kwargs =
  kw_binary_rules :: "'op list option"
  kw_beta :: "real option"
  kw_use_beta :: "bool option"
  kw_use_category_dict :: "bool option"
  kw_use_seen_rules :: "bool option"
  kw_pruning_size :: "int option"
  kw_nbest :: "int option"
  kw_possible_root_cats :: "'c py_cat list option"
  kw_max_length :: "int option"
  kw_max_steps :: "int option"

definition no_kwargs :: "('c, 'op) kwargs" where
  "no_kwargs =
     \<lparr>kw_binary_rules = None, kw_beta = None, kw_use_beta = None, kw_use_category_dict = None,
      kw_use_seen_rules = None, kw_pruning_size = None, kw_nbest = None,
      kw_possible_root_cats = None, kw_max_length = None, kw_max_steps = None\<rparr>"

text \<open>The value of a keyword argument: what the caller passed, or the signature's default.\<close>

definition arg :: "'x \<Rightarrow> 'x option \<Rightarrow> 'x" where
  "arg dflt given = (case given of None \<Rightarrow> dflt | Some v \<Rightarrow> v)"

text \<open>
  \<^verbatim>\<open>given or dflt\<close> for an optional list: \<^verbatim>\<open>None\<close> and the empty list are false.
\<close>

definition list_or :: "'x list option \<Rightarrow> 'x list \<Rightarrow> 'x list" where
  "list_or given dflt = (case given of None \<Rightarrow> dflt | Some [] \<Rightarrow> dflt | Some xs \<Rightarrow> xs)"

text \<open>
  \<^verbatim>\<open>Category.parse(cat) if not isinstance(cat, Category) else cat\<close>, with
  \<^verbatim>\<open>Category.parse\<close> (of \<^verbatim>\<open>depccg.cat\<close>) a parameter that may raise.
\<close>

fun as_category :: "(string \<Rightarrow> error + 'c) \<Rightarrow> 'c py_cat \<Rightarrow> error + 'c" where
  "as_category Category_parse (Str s) = Category_parse s"
| "as_category Category_parse (Cat c) = Inr c"

definition en_possible_root_cats :: "string list" where
  "en_possible_root_cats = [''S[dcl]'', ''S[wq]'', ''S[q]'', ''S[qem]'', ''NP'']"

definition ja_possible_root_cats :: "string list" where
  "ja_possible_root_cats =
     [''NP[case=nc,mod=nm,fin=f]'',
      ''NP[case=nc,mod=nm,fin=t]'',
      ''S[mod=nm,form=attr,fin=t]'',
      ''S[mod=nm,form=base,fin=f]'',
      ''S[mod=nm,form=base,fin=t]'',
      ''S[mod=nm,form=cont,fin=f]'',
      ''S[mod=nm,form=cont,fin=t]'',
      ''S[mod=nm,form=da,fin=f]'',
      ''S[mod=nm,form=da,fin=t]'',
      ''S[mod=nm,form=hyp,fin=t]'',
      ''S[mod=nm,form=imp,fin=f]'',
      ''S[mod=nm,form=imp,fin=t]'',
      ''S[mod=nm,form=r,fin=t]'',
      ''S[mod=nm,form=s,fin=t]'',
      ''S[mod=nm,form=stem,fin=f]'',
      ''S[mod=nm,form=stem,fin=t]'']"

text \<open>
  \<^verbatim>\<open>self.max_steps = v\<close> and the read of \<^verbatim>\<open>self.max_steps\<close>. The class does not
  declare the attribute, so both go to the instance dictionary and raise AttributeError for
  an object that has none; the read raises it also when the dictionary has no such entry.
\<close>

definition setattr_max_steps :: "('c, 'op, 't) parser \<Rightarrow> int \<Rightarrow> error + ('c, 'op, 't) parser" where
  "setattr_max_steps self v =
     (case attrs self of
        None \<Rightarrow> Inl AttributeError
      | Some d \<Rightarrow> Inr (self\<lparr>attrs := Some (d(''max_steps'' \<mapsto> v))\<rparr>))"

definition getattr_max_steps :: "('c, 'op, 't) parser \<Rightarrow> error + int" where
  "getattr_max_steps self =
     (case attrs self of
        None \<Rightarrow> Inl AttributeError
      | Some d \<Rightarrow> (case d ''max_steps'' of None \<Rightarrow> Inl AttributeError | Some v \<Rightarrow> Inr v))"

text \<open>
  \<^verbatim>\<open>EnglishCCGParser.__init__\<close>, statement by statement. \<open>self\<close> is the object the
  constructor is called on; the result is the exception raised, if any, and the object as
  the call leaves it: an assignment made before a later statement raises stands.
  \<^verbatim>\<open>en_default_binary_rules\<close> (of \<^verbatim>\<open>depccg.combinator\<close>) is a parameter.
\<close>

definition EnglishCCGParser_init ::
  "'op list \<Rightarrow> (string \<Rightarrow> error + 'c) \<Rightarrow> ('c, 'op, 't) parser \<Rightarrow>
   (string \<rightharpoonup> 'c list) \<Rightarrow> 'c list \<Rightarrow> ('c \<times> 'c) list \<Rightarrow> ('c \<times> 'c) list \<Rightarrow>
   ('c, 'op) kwargs \<Rightarrow> error option \<times> ('c, 'op, 't) parser"
where
  "EnglishCCGParser_init en_default_binary_rules Category_parse self
      category_dict' tag_list' unary_rules' seen_rules' kw =
     (let self1 = self\<lparr>binary_rules :=
                    Some (list_or (kw_binary_rules kw) en_default_binary_rules)\<rparr>;
          possible_root_cats' =
            (case kw_possible_root_cats kw of
               None \<Rightarrow> map Str en_possible_root_cats
             | Some cats \<Rightarrow> cats)
      in case comprehension (as_category Category_parse) possible_root_cats' of
           Inl e \<Rightarrow> (Some e, self1)
         | Inr cats \<Rightarrow>
             (let self2 = self1
                    \<lparr>possible_root_cats := map Cat cats,
                     category_dict := category_dict',
                     tag_list := tag_list',
                     unary_rules := unary_rules',
                     seen_rules := seen_rules',
                     beta := arg (1 / 100000) (kw_beta kw),
                     use_beta := arg True (kw_use_beta kw),
                     use_category_dict := arg True (kw_use_category_dict kw),
                     use_seen_rules := arg True (kw_use_seen_rules kw),
                     pruning_size := arg 50 (kw_pruning_size kw),
                     nbest := arg 1 (kw_nbest kw),
                     max_length := arg 250 (kw_max_length kw)\<rparr>
              in case setattr_max_steps self2 (arg 100000 (kw_max_steps kw)) of
                   Inl e \<Rightarrow> (Some e, self2)
                 | Inr self3 \<Rightarrow> (None, self3\<lparr>tagger := None, lang := ''en''\<rparr>)))"

text \<open>
  \<^verbatim>\<open>JapaneseCCGParser.__init__\<close>, which does not call the constructor of its base class:
  the assignments in the order of the source.
\<close>

definition JapaneseCCGParser_init ::
  "'op list \<Rightarrow> (string \<Rightarrow> error + 'c) \<Rightarrow> ('c, 'op, 't) parser \<Rightarrow>
   (string \<rightharpoonup> 'c list) \<Rightarrow> 'c list \<Rightarrow> ('c \<times> 'c) list \<Rightarrow> ('c \<times> 'c) list \<Rightarrow>
   ('c, 'op) kwargs \<Rightarrow> error option \<times> ('c, 'op, 't) parser"
where
  "JapaneseCCGParser_init ja_default_binary_rules Category_parse self
      category_dict' tag_list' unary_rules' seen_rules' kw =
     (let self1 = (if kw_binary_rules kw = None
                   then self\<lparr>binary_rules := Some ja_default_binary_rules\<rparr>
                   else self);
          possible_root_cats' =
            (case kw_possible_root_cats kw of
               None \<Rightarrow> map Str ja_possible_root_cats
             | Some cats \<Rightarrow> cats)
      in case comprehension (as_category Category_parse) possible_root_cats' of
           Inl e \<Rightarrow> (Some e, self1)
         | Inr cats \<Rightarrow>
             (let self2 = self1
                    \<lparr>possible_root_cats := map Cat cats,
                     category_dict := category_dict',
                     tag_list := tag_list',
                     unary_rules := unary_rules',
                     seen_rules := seen_rules',
                     binary_rules := kw_binary_rules kw,
                     beta := arg (1 / 100000) (kw_beta kw),
                     use_beta := arg True (kw_use_beta kw),
                     use_category_dict := arg True (kw_use_category_dict kw),
                     use_seen_rules := arg True (kw_use_seen_rules kw),
                     pruning_size := arg 50 (kw_pruning_size kw),
                     nbest := arg 1 (kw_nbest kw),
                     possible_root_cats := possible_root_cats',
                     max_length := arg 250 (kw_max_length kw)\<rparr>
              in case setattr_max_steps self2 (arg 100000 (kw_max_steps kw)) of
                   Inl e \<Rightarrow> (Some e, self2)
                 | Inr self3 \<Rightarrow> (None, self3\<lparr>tagger := None, lang := ''en''\<rparr>)))"

text \<open>
  A call of a class, \<^verbatim>\<open>cls(...)\<close>: the constructor runs on a new object, and the call
  yields the object when the constructor returns.
\<close>

definition construct :: "('p \<Rightarrow> error option \<times> 'p) \<Rightarrow> 'p \<Rightarrow> error + 'p" where
  "construct init new = (case init new of (None, self) \<Rightarrow> Inr self | (Some e, self) \<Rightarrow> Inl e)"

subsection \<open>The JSON loader\<close>

text \<open>The four entries that \<^verbatim>\<open>from_json\<close> reads from its input dictionary.\<close>

record json_input =
  json_unary_rules :: "(string \<times> string) list"
  json_cat_dict :: "(string \<times> string list) list"
  json_targets :: "string list"
  json_seen_rules :: "(string \<times> string) list"

text \<open>\<^verbatim>\<open>(Category.parse(c1), Category.parse(c2))\<close>\<close>

definition parse_pair :: "(string \<Rightarrow> error + 'c) \<Rightarrow> string \<times> string \<Rightarrow> error + ('c \<times> 'c)" where
  "parse_pair Category_parse p =
     and_then (Category_parse (fst p)) (\<lambda>c1.
     and_then (Category_parse (snd p)) (\<lambda>c2. Inr (c1, c2)))"

text \<open>
  \<^verbatim>\<open>preprocess = lambda cat: cat.strip_feat('[X]').strip_feat('[nb]')\<close>, with the method
  \<^verbatim>\<open>strip_feat\<close> of \<^verbatim>\<open>Category\<close> a parameter.
\<close>

definition preprocess :: "(string \<Rightarrow> 'c \<Rightarrow> 'c) \<Rightarrow> 'c \<Rightarrow> 'c" where
  "preprocess strip_feat cat = strip_feat ''[nb]'' (strip_feat ''[X]'' cat)"

text \<open>One round of the loop that builds the seen rules (the four statements of its body).\<close>

definition parse_seen_rule ::
  "(string \<Rightarrow> error + 'c) \<Rightarrow> (string \<Rightarrow> 'c \<Rightarrow> 'c) \<Rightarrow> string \<times> string \<Rightarrow> error + ('c \<times> 'c)"
where
  "parse_seen_rule Category_parse strip_feat p =
     and_then (Category_parse (fst p)) (\<lambda>c1.
     and_then (Category_parse (snd p)) (\<lambda>c2.
       Inr (preprocess strip_feat c1, preprocess strip_feat c2)))"

text \<open>
  The loop over \<^verbatim>\<open>json_input['cat_dict'].items()\<close>, which fills \<^verbatim>\<open>category_dict\<close> word
  by word.
\<close>

fun parse_cat_dict ::
  "(string \<Rightarrow> error + 'c) \<Rightarrow> (string \<times> string list) list \<Rightarrow> (string \<rightharpoonup> 'c list) \<Rightarrow>
   error + (string \<rightharpoonup> 'c list)"
where
  "parse_cat_dict Category_parse [] category_dict' = Inr category_dict'"
| "parse_cat_dict Category_parse ((word, cats) # items) category_dict' =
     and_then (comprehension Category_parse cats) (\<lambda>parsed.
       parse_cat_dict Category_parse items (category_dict'(word \<mapsto> parsed)))"

text \<open>
  \<^verbatim>\<open>from_json\<close> for an input that is a dictionary already and without a tagger to load.
  \<open>cls\<close> is the constructor of the class the method is called on.
\<close>

definition from_json ::
  "((string \<rightharpoonup> 'c list) \<Rightarrow> 'c list \<Rightarrow> ('c \<times> 'c) list \<Rightarrow> ('c \<times> 'c) list \<Rightarrow> 'kw \<Rightarrow> error + 'p) \<Rightarrow>
   (string \<Rightarrow> error + 'c) \<Rightarrow> (string \<Rightarrow> 'c \<Rightarrow> 'c) \<Rightarrow> json_input \<Rightarrow> 'kw \<Rightarrow> error + 'p"
where
  "from_json cls Category_parse strip_feat json kw =
     and_then (comprehension (parse_pair Category_parse) (json_unary_rules json)) (\<lambda>unary_rules'.
     and_then (parse_cat_dict Category_parse (json_cat_dict json) Map.empty) (\<lambda>category_dict'.
     and_then (comprehension Category_parse (json_targets json)) (\<lambda>tag_list'.
     and_then (comprehension (parse_pair Category_parse) (json_seen_rules json)) (\<lambda>seen_rules'.
     and_then (comprehension (parse_seen_rule Category_parse strip_feat) (json_seen_rules json))
       (\<lambda>seen_rules'.
     cls category_dict' tag_list' unary_rules' seen_rules' kw)))))"

text \<open>The loader the specification asks for: the same, without the first build of the seen rules.\<close>

definition from_json_single_build ::
  "((string \<rightharpoonup> 'c list) \<Rightarrow> 'c list \<Rightarrow> ('c \<times> 'c) list \<Rightarrow> ('c \<times> 'c) list \<Rightarrow> 'kw \<Rightarrow> error + 'p) \<Rightarrow>
   (string \<Rightarrow> error + 'c) \<Rightarrow> (string \<Rightarrow> 'c \<Rightarrow> 'c) \<Rightarrow> json_input \<Rightarrow> 'kw \<Rightarrow> error + 'p"
where
  "from_json_single_build cls Category_parse strip_feat json kw =
     and_then (comprehension (parse_pair Category_parse) (json_unary_rules json)) (\<lambda>unary_rules'.
     and_then (parse_cat_dict Category_parse (json_cat_dict json) Map.empty) (\<lambda>category_dict'.
     and_then (comprehension Category_parse (json_targets json)) (\<lambda>tag_list'.
     and_then (comprehension (parse_seen_rule Category_parse strip_feat) (json_seen_rules json))
       (\<lambda>seen_rules'.
     cls category_dict' tag_list' unary_rules' seen_rules' kw))))"

text \<open>
  A new object of one of the two classes, before its constructor has run. Cython sets the
  attributes of a new object to \<^verbatim>\<open>None\<close>; the typed fields hold an empty value each. The
  object has no instance dictionary.
\<close>

definition unset_parser :: "('c, 'op, 't) parser" where
  "unset_parser =
     \<lparr>binary_rules = None, possible_root_cats = [], category_dict = Map.empty, tag_list = [],
      unary_rules = [], seen_rules = [], beta = 0, use_beta = False, use_category_dict = False,
      use_seen_rules = False, pruning_size = 0, nbest = 0, max_length = 0,
      tagger = None, lang = [], attrs = None\<rparr>"

text \<open>
  A new object of a subclass written in Python (\<^verbatim>\<open>class P(JapaneseCCGParser): pass\<close>),
  which has an instance dictionary, empty at first.
\<close>

definition unset_subclass_parser :: "('c, 'op, 't) parser" where
  "unset_subclass_parser = unset_parser\<lparr>attrs := Some Map.empty\<rparr>"

subsection \<open>Parsing a batch\<close>

text \<open>\<^verbatim>\<open>s.split(' ')\<close>: the pieces of \<open>s\<close> between single spaces, one more than it has spaces.\<close>

fun split_spaces :: "string \<Rightarrow> string list" where
  "split_spaces [] = [[]]"
| "split_spaces (c # cs) =
     (if c = CHR '' '' then [] # split_spaces cs
      else (case split_spaces cs of [] \<Rightarrow> [[c]] | w # ws \<Rightarrow> (c # w) # ws))"

text \<open>
  A Python integer assigned to a C variable declared \<^verbatim>\<open>unsigned\<close> or \<^verbatim>\<open>int\<close>: Cython
  raises OverflowError for a value the C type does not hold.
\<close>

definition as_unsigned :: "int \<Rightarrow> error + nat" where
  "as_unsigned n = (if 0 \<le> n \<and> n < 2 ^ 32 then Inr (nat n) else Inl OverflowError)"

definition as_int :: "int \<Rightarrow> error + int" where
  "as_int n = (if - (2 ^ 31) \<le> n \<and> n < 2 ^ 31 then Inr n else Inl OverflowError)"

text \<open>
  A partial constraint is a tuple of two (a category and a token) or of three (a category or
  \<^verbatim>\<open>None\<close>, the start of a span and its length).
\<close>

datatype 'c constraint = Terminal 'c int | NonTerminal "'c option" int int

fun terminal_of :: "'c constraint \<Rightarrow> ('c \<times> int) option" where
  "terminal_of (Terminal cat i) = Some (cat, i)"
| "terminal_of (NonTerminal cat start_of_span span_length) = None"

fun nonterminal_of :: "'c constraint \<Rightarrow> ('c option \<times> int \<times> int) option" where
  "nonterminal_of (Terminal cat i) = None"
| "nonterminal_of (NonTerminal cat start_of_span span_length) = Some (cat, start_of_span, span_length)"

text \<open>
  The native class \<^verbatim>\<open>PartialConstraints\<close>: the unary rules it was made with, if any, and
  the spans added to it, in the order of the calls of \<^verbatim>\<open>Add\<close>.
\<close>

datatype ('c, 'u) PartialConstraints = PartialConstraints "'u option" "('c option \<times> int \<times> int) list"

fun add_constraints ::
  "('c option \<times> int \<times> int) list \<Rightarrow> ('c, 'u) PartialConstraints \<Rightarrow> error + ('c, 'u) PartialConstraints"
where
  "add_constraints [] c_constraints = Inr c_constraints"
| "add_constraints ((cat, start_of_span, span_length) # py_constraints) (PartialConstraints u spans) =
     and_then (as_int start_of_span) (\<lambda>start_of_span'.
     and_then (as_int span_length) (\<lambda>span_length'.
       add_constraints py_constraints
         (PartialConstraints u (spans @ [(cat, start_of_span', span_length')]))))"

definition build_nonterminal_constraints ::
  "('c option \<times> int \<times> int) list \<Rightarrow> 'u \<Rightarrow> error + ('c, 'u) PartialConstraints"
where
  "build_nonterminal_constraints py_constraints unary_rules' =
     add_constraints py_constraints (PartialConstraints (Some unary_rules') [])"

text \<open>
  What \<^verbatim>\<open>_parse_doc_tag_and_dep\<close> hands to the engine besides the sentences and their
  matrices: the local C++ values of its lines 262 to 279
  (\<open>tag_list_c\<close> for \<^verbatim>\<open>tag_list_\<close>, and so on).
\<close>

record ('c, 'op, 'a) config =
  tag_list_c :: "'c list"
  category_dict_c :: "string \<rightharpoonup> 'c set"
  beta_c :: 'a
  use_beta_c :: bool
  pruning_size_c :: nat
  nbest_c :: nat
  binary_rules_c :: "'op list"
  possible_root_cats_c :: "'c set"
  unary_rules_c :: "'c \<rightharpoonup> 'c set"
  seen_rules_c :: "('c \<times> 'c) set"
  max_length_c :: nat
  max_steps_c :: nat

text \<open>
  The native code that the module imports and that is not part of the sources at hand, as
  parameters: the converters from Python values to C++ containers (of \<^verbatim>\<open>depccg.utils\<close> and
  \<^verbatim>\<open>depccg.combinator\<close>), which may raise, the maker of the rule applicator, and the
  engine \<^verbatim>\<open>ParseSentences\<close>, which answers with a list of scored nodes for each sentence. The
  engine gets the sentences, the score matrices (a slot that was never assigned is \<open>None\<close>),
  the configuration, one rule applicator and one constraint set for each sentence.
\<close>

record ('c, 'op, 'a, 'n, 'r) native =
  cat_list_to_vector :: "'c list \<Rightarrow> error + 'c list"
  convert_cat_dict :: "(string \<rightharpoonup> 'c list) \<Rightarrow> error + (string \<rightharpoonup> 'c set)"
  combinator_list_to_vector :: "'op list option \<Rightarrow> error + 'op list"
  cat_list_to_unordered_set :: "'c py_cat list \<Rightarrow> error + 'c set"
  convert_unary_rules :: "('c \<times> 'c) list \<Rightarrow> error + ('c \<rightharpoonup> 'c set)"
  convert_seen_rules :: "('c \<times> 'c) list \<Rightarrow> error + ('c \<times> 'c) set"
  MakeEnApplyBinaryRules :: "'op list \<Rightarrow> 'r"
  ParseSentences ::
    "string list \<Rightarrow> 'a ndarray option list \<Rightarrow> 'a ndarray option list \<Rightarrow> ('c, 'op, 'a) config \<Rightarrow>
     'r list \<Rightarrow> ('c, 'c \<rightharpoonup> 'c set) PartialConstraints list \<Rightarrow> ('n \<times> 'a) list list"

text \<open>
  Lines 262 to 279: the conversions, in the order of the source. \<open>cast\<close> converts a Python
  float to a C \<^verbatim>\<open>float\<close>. The read of \<^verbatim>\<open>self.max_steps\<close> in line 279 raises
  AttributeError for an object that has no such attribute.
\<close>

definition marshal ::
  "('c, 'op, 'a, 'n, 'r) native \<Rightarrow> (real \<Rightarrow> 'a) \<Rightarrow> ('c, 'op, 't) parser \<Rightarrow> 'c list \<Rightarrow>
   error + ('c, 'op, 'a) config"
where
  "marshal native cast self py_tag_list =
     and_then (cat_list_to_vector native py_tag_list) (\<lambda>tag_list'.
     and_then (if use_category_dict self then convert_cat_dict native (category_dict self)
               else Inr Map.empty) (\<lambda>category_dict'.
     and_then (as_unsigned (pruning_size self)) (\<lambda>pruning_size'.
     and_then (as_unsigned (nbest self)) (\<lambda>nbest'.
     and_then (combinator_list_to_vector native (binary_rules self)) (\<lambda>binary_rules'.
     and_then (cat_list_to_unordered_set native (possible_root_cats self)) (\<lambda>possible_root_cats'.
     and_then (convert_unary_rules native (unary_rules self)) (\<lambda>unary_rules'.
     and_then (if use_seen_rules self then convert_seen_rules native (seen_rules self)
               else Inr {}) (\<lambda>seen_rules'.
     and_then (as_unsigned (max_length self)) (\<lambda>max_length'.
     and_then (getattr_max_steps self) (\<lambda>max_steps.
     and_then (as_unsigned max_steps) (\<lambda>max_steps'.
       Inr \<lparr>tag_list_c = tag_list', category_dict_c = category_dict', beta_c = cast (beta self),
            use_beta_c = use_beta self, pruning_size_c = pruning_size', nbest_c = nbest',
            binary_rules_c = binary_rules', possible_root_cats_c = possible_root_cats',
            unary_rules_c = unary_rules', seen_rules_c = seen_rules',
            max_length_c = max_length', max_steps_c = max_steps'\<rparr>)))))))))))"

text \<open>
  The loop over \<^verbatim>\<open>zip(constraints, probs)\<close>: the constraint sets built so far and
  \<^verbatim>\<open>new_probs\<close>. The terminal constraints are written into the tag matrix of their
  sentence.
\<close>

fun load_constraints ::
  "(real \<Rightarrow> 'a) \<Rightarrow> 'u \<Rightarrow> 'c list \<Rightarrow> ('c constraint list \<times> (addr \<times> addr)) list \<Rightarrow> 'a heap \<Rightarrow>
   (error + (('c, 'u) PartialConstraints list \<times> (addr \<times> addr) list)) \<times> 'a heap"
where
  "load_constraints cast u py_tag_list [] h = (Inr ([], []), h)"
| "load_constraints cast u py_tag_list ((constraint, (py_cat_scores, py_dep_scores)) # rest) h =
     (case build_nonterminal_constraints (List.map_filter nonterminal_of constraint) u of
        Inl e \<Rightarrow> (Inl e, h)
      | Inr c \<Rightarrow>
          (case build_terminal_constraints cast (List.map_filter terminal_of constraint)
                  py_cat_scores py_tag_list h of
             (Inl e, h1) \<Rightarrow> (Inl e, h1)
           | (Inr py_cat_scores', h1) \<Rightarrow>
               (case load_constraints cast u py_tag_list rest h1 of
                  (Inl e, h2) \<Rightarrow> (Inl e, h2)
                | (Inr (cs, new_probs), h2) \<Rightarrow>
                    (Inr (c # cs, (py_cat_scores', py_dep_scores) # new_probs), h2))))"

text \<open>
  The assignment of an array to a variable declared
  \<^verbatim>\<open>np.ndarray[float, ndim=2, mode='c']\<close> (line 257; lines 311 and 312): Cython acquires
  the buffer of the array and raises ValueError when its dtype is not \<^verbatim>\<open>float32\<close> or the
  array is not C-contiguous.
\<close>

definition acquire_buffer :: "'a ndarray \<Rightarrow> error + 'a ndarray" where
  "acquire_buffer m = (if dtype m = Float32 \<and> c_contiguous m then Inr m else Inl ValueError)"

text \<open>
  \<^verbatim>\<open>&m[0, 0]\<close> (lines 314 and 315), the address of the first cell of a buffer: Cython
  checks the indices of a buffer access against the shape, as it does unless the check is
  switched off, and raises IndexError for an array that has no row or no column. Addresses
  are not modelled: the engine is handed the arrays themselves.
\<close>

definition first_cell :: "'a ndarray \<Rightarrow> error + unit" where
  "first_cell m = (if rows m = [] \<or> ncols m = 0 then Inl IndexError else Inr ())"

text \<open>
  The loop of lines 303 to 315 from its round \<open>i\<close> on: \<^verbatim>\<open>sents[i]\<close> raises IndexError
  when there are more pairs of matrices than sentences; a sentence whose matrices have the
  wrong shape raises RuntimeError; matrices of the right shape are bound to the typed
  buffers and the addresses of their first cells are taken, which raises as said above. The
  first exception ends the loop.
\<close>

fun check_shapes :: "'a heap \<Rightarrow> nat \<Rightarrow> string list \<Rightarrow> nat \<Rightarrow> (addr \<times> addr) list \<Rightarrow> error + unit" where
  "check_shapes h tag_size sents i [] = Inr ()"
| "check_shapes h tag_size sents i ((py_cat_scores, py_dep_scores) # probs) =
     (if length sents \<le> i then Inl IndexError
      else let sent_size = length (split_spaces (sents ! i)) in
        if (sent_size, tag_size) \<noteq> shape (h py_cat_scores) \<or>
           (sent_size, sent_size + 1) \<noteq> shape (h py_dep_scores)
        then Inl RuntimeError
        else
          and_then (acquire_buffer (h py_cat_scores)) (\<lambda>cat_scores.
          and_then (acquire_buffer (h py_dep_scores)) (\<lambda>dep_scores.
          and_then (first_cell cat_scores) (\<lambda>tag.
          and_then (first_cell dep_scores) (\<lambda>dep.
            check_shapes h tag_size sents (i + 1) probs)))))"

text \<open>\<^verbatim>\<open>Tree.from_ptr(node, lang)\<close>: a tree is a node of the engine and a language tag.\<close>

datatype 'n Tree = Tree 'n string

fun tree_lang :: "'n Tree \<Rightarrow> string" where
  "tree_lang (Tree node lang') = lang'"

text \<open>Lines 337 to 343: for each sentence, the first \<^verbatim>\<open>min(nbest_, cres[i].size())\<close> answers.\<close>

definition collect_results ::
  "nat \<Rightarrow> string \<Rightarrow> nat \<Rightarrow> ('n \<times> 'a) list list \<Rightarrow> ('n Tree \<times> 'a) list list"
where
  "collect_results nbest' lang' doc_size cres =
     map (\<lambda>i. map (\<lambda>j. (Tree (fst (cres ! i ! j)) lang', snd (cres ! i ! j)))
                 [0 ..< min nbest' (length (cres ! i))])
         [0 ..< doc_size]"

text \<open>
  Lines 285 to 300: the constraint sets of the sentences and the pairs of matrices the run
  goes on with. Without constraints every sentence gets the empty constraint set. With
  constraints, the vector of \<open>doc_size\<close> empty sets is filled from the front.
\<close>

definition prepare_constraints ::
  "(real \<Rightarrow> 'a) \<Rightarrow> 'u \<Rightarrow> 'c list \<Rightarrow> nat \<Rightarrow> (addr \<times> addr) list \<Rightarrow>
   'c constraint list list option \<Rightarrow> 'a heap \<Rightarrow>
   (error + (('c, 'u) PartialConstraints list \<times> (addr \<times> addr) list)) \<times> 'a heap"
where
  "prepare_constraints cast u py_tag_list doc_size probs constraints h =
     (case constraints of
        None \<Rightarrow> (Inr (replicate doc_size (PartialConstraints None []), probs), h)
      | Some cxs \<Rightarrow>
          if length cxs \<noteq> doc_size then (Inl AssertionError, h)
          else (case load_constraints cast u py_tag_list (zip cxs probs) h of
                  (Inl e, h1) \<Rightarrow> (Inl e, h1)
                | (Inr (cs, new_probs), h1) \<Rightarrow>
                    (Inr (cs @ replicate (doc_size - length cs) (PartialConstraints None []),
                          new_probs), h1)))"

text \<open>
  \<^verbatim>\<open>_parse_doc_tag_and_dep\<close>. \<open>probs\<close> holds, for each sentence, the addresses of its tag
  matrix and of its dependency matrix. The result is what the call returns or raises, and
  the store it leaves.
\<close>

definition parse_doc_tag_and_dep ::
  "('c, 'op, 'a, 'n, 'r) native \<Rightarrow> (real \<Rightarrow> 'a) \<Rightarrow> ('c, 'op, 't) parser \<Rightarrow> string list \<Rightarrow>
   (addr \<times> addr) list \<Rightarrow> 'c list option \<Rightarrow> 'c constraint list list option \<Rightarrow> 'a heap \<Rightarrow>
   (error + ('n Tree \<times> 'a) list list) \<times> 'a heap"
where
  "parse_doc_tag_and_dep native cast self sents probs tag_list' constraints h =
     (let doc_size = length sents;
          py_tag_list = list_or tag_list' (tag_list self)
      in case marshal native cast self py_tag_list of
           Inl e \<Rightarrow> (Inl e, h)
         | Inr cfg \<Rightarrow>
             (case prepare_constraints cast (unary_rules_c cfg) py_tag_list doc_size probs
                     constraints h of
                (Inl e, h1) \<Rightarrow> (Inl e, h1)
              | (Inr (c_constraints, probs1), h1) \<Rightarrow>
                  (case check_shapes h1 (length (tag_list_c cfg)) sents 0 probs1 of
                     Inl e \<Rightarrow> (Inl e, h1)
                   | Inr u \<Rightarrow>
                       (let filled = length probs1;
                            csents = take filled sents @ replicate (doc_size - filled) [];
                            tags = map (\<lambda>p. Some (h1 (fst p))) probs1
                                     @ replicate (doc_size - filled) None;
                            deps = map (\<lambda>p. Some (h1 (snd p))) probs1
                                     @ replicate (doc_size - filled) None;
                            cres = ParseSentences native csents tags deps cfg
                                     (replicate doc_size
                                        (MakeEnApplyBinaryRules native (binary_rules_c cfg)))
                                     c_constraints
                        in (Inr (collect_results (nbest_c cfg) (lang self) doc_size cres), h1)))))"

subsection \<open>Notions for the properties\<close>

text \<open>
  The matrices of a sentence do not fit it: the tag matrix is not of shape (number of
  tokens, number of tags), or the dependency matrix is not of shape (number of tokens,
  number of tokens + 1).
\<close>

definition shape_mismatch :: "'a heap \<Rightarrow> nat \<Rightarrow> string \<Rightarrow> addr \<times> addr \<Rightarrow> bool" where
  "shape_mismatch h tag_size sent p \<longleftrightarrow>
     shape (h (fst p)) \<noteq> (length (split_spaces sent), tag_size) \<or>
     shape (h (snd p)) \<noteq> (length (split_spaces sent), length (split_spaces sent) + 1)"

text \<open>What the shape check reads of an array: its shape, its dtype and its memory layout.\<close>

definition layout :: "'a ndarray \<Rightarrow> (nat \<times> nat) \<times> dtype \<times> bool" where
  "layout m = (shape m, dtype m, c_contiguous m)"



text \<open>
  A native part for the instances below: converters that do not raise, and an engine that
  answers each sentence with the nodes \<open>0, 1, 2\<close>, scored \<open>0, -1, -2\<close>.
\<close>

definition simple_native :: "(string, nat, real, nat, nat list) native" where
  "simple_native =
     \<lparr>cat_list_to_vector = Inr,
      convert_cat_dict = (\<lambda>d. Inr (\<lambda>w. map_option set (d w))),
      combinator_list_to_vector = (\<lambda>rules. Inr (list_or rules [])),
      cat_list_to_unordered_set = (\<lambda>cats. Inr {}),
      convert_unary_rules = (\<lambda>rules. Inr Map.empty),
      convert_seen_rules = (\<lambda>rules. Inr (set rules)),
      MakeEnApplyBinaryRules = (\<lambda>rules. rules),
      ParseSentences = (\<lambda>csents tags deps cfg rules c_constraints.
                          map (\<lambda>s. [(0, 0), (1, - 1), (2, - 2)]) csents)\<rparr>"

text \<open>
  A store for the instances below, for the batch of the two sentences \<open>a b\<close> and
  \<open>c\<close> and two tags, all arrays of dtype \<^verbatim>\<open>float32\<close> and C-contiguous: at 0 and 1
  the matrices of the first sentence, of shapes (2, 2) and (2, 3); at 2 a tag matrix of
  shape (1, 2) and at 3 a dependency matrix of shape (1, 3), which is not the shape (1, 2)
  that a sentence of one token asks for; at the other addresses a dependency matrix of
  shape (1, 2).
\<close>

definition example_store :: "real heap" where
  "example_store a =
     (if a = 0 then float32 2 [[- 1, - 2], [- 3, - 4]]
      else if a = 1 then float32 3 [[- 1, - 2, - 3], [- 4, - 5, - 6]]
      else if a = 2 then float32 2 [[- 1, - 2]]
      else if a = 3 then float32 3 [[- 1, - 2, - 3]]
      else float32 2 [[- 1, - 2]])"

text \<open>
  A parser for the instances below, an instance of a subclass written in Python, as the
  constructor of \<^verbatim>\<open>EnglishCCGParser\<close> leaves it when it is called with two tags, empty
  tables and \<^verbatim>\<open>nbest=2\<close>.
\<close>

definition example_parser :: "(string, nat, unit) parser" where
  "example_parser =
     \<lparr>binary_rules = Some [0], possible_root_cats = map Cat en_possible_root_cats,
      category_dict = Map.empty, tag_list = [''N'', ''NP''], unary_rules = [], seen_rules = [],
      beta = 1 / 100000, use_beta = True, use_category_dict = True, use_seen_rules = True,
      pruning_size = 50, nbest = 2, max_length = 250, tagger = None, lang = ''en'',
      attrs = Some [''max_steps'' \<mapsto> 100000]\<rparr>"

section \<open>The engine, as the specification describes it\<close>

text \<open>
  The native engine behind \<^verbatim>\<open>ParseSentences\<close> is not among the sources. The definitions
  of this section follow the specification's description of it (its sections 3 and 4);
  scores are real numbers. The grammar's combinators, the normalisation of categories and
  the rejection test of the constraint set are parameters.
\<close>

subsection \<open>Derivations\<close>

text \<open>
  Modelled from the spec: the derivation nodes of the engine, which is missing from the
  sources. A leaf has a position, a surface form, a category and a lexical
  log-probability; a binary node has a left and a right child, a parent category, a
  combinator identifier, a head-child indicator (true for the left child) and an inside
  score; a unary node has a child, a parent category, a rule identifier and an inside score.
\<close>

datatype ('c, 'k) derivation =
    Leaf nat string 'c real
  | Binary "('c, 'k) derivation" "('c, 'k) derivation" 'c 'k bool real
  | Unary "('c, 'k) derivation" 'c 'k real

fun category :: "('c, 'k) derivation \<Rightarrow> 'c" where
  "category (Leaf i w c lp) = c"
| "category (Binary l r c k head_left sc) = c"
| "category (Unary t c k sc) = c"

fun inside :: "('c, 'k) derivation \<Rightarrow> real" where
  "inside (Leaf i w c lp) = lp"
| "inside (Binary l r c k head_left sc) = sc"
| "inside (Unary t c k sc) = sc"

text \<open>
  Modelled from the spec: each derivation covers a contiguous span
  \<open>[start, start + length)\<close>, derivable from its children.
\<close>

fun span_start :: "('c, 'k) derivation \<Rightarrow> nat" where
  "span_start (Leaf i w c lp) = i"
| "span_start (Binary l r c k head_left sc) = span_start l"
| "span_start (Unary t c k sc) = span_start t"

fun span_length :: "('c, 'k) derivation \<Rightarrow> nat" where
  "span_length (Leaf i w c lp) = 1"
| "span_length (Binary l r c k head_left sc) = span_length l + span_length r"
| "span_length (Unary t c k sc) = span_length t"

text \<open>
  Modelled from the spec: the head token of a derivation (section 4.9): a leaf's own
  position, the head of the head child of a binary node, the head of the child of a unary
  node.
\<close>

fun head_token :: "('c, 'k) derivation \<Rightarrow> nat" where
  "head_token (Leaf i w c lp) = i"
| "head_token (Binary l r c k head_left sc) = (if head_left then head_token l else head_token r)"
| "head_token (Unary t c k sc) = head_token t"

fun is_unary :: "('c, 'k) derivation \<Rightarrow> bool" where
  "is_unary (Unary t c k sc) = True"
| "is_unary (Leaf i w c lp) = False"
| "is_unary (Binary l r c k head_left sc) = False"

text \<open>Modelled from the spec: the signature \<open>(start, length, category)\<close> that keys the chart.\<close>

definition signature :: "('c, 'k) derivation \<Rightarrow> nat \<times> nat \<times> 'c" where
  "signature d = (span_start d, span_length d, category d)"

subsection \<open>Grammar, configuration and input\<close>

text \<open>
  Modelled from the spec: the grammar and the configuration of the engine (sections 3 and
  6). The category inventory in the order of the category ids; the registered combinators
  in their fixed order, each giving for a left and a right category the parent category,
  its identifier and the head side, if it applies; the unary rules, which map a child
  category to its parents with a rule identifier each; the seen rules; the feature
  normalisation that the seen-rules filter compares under; the admissible root
  categories; the category dictionary; and the options.
\<close>

record ('c, 'k) engine =
  e_inventory :: "'c list"
  e_combinators :: "('c \<Rightarrow> 'c \<Rightarrow> ('c \<times> 'k \<times> bool) option) list"
  e_unary_rules :: "'c \<Rightarrow> ('c \<times> 'k) list"
  e_seen_rules :: "('c \<times> 'c) list"
  e_normalized :: "'c \<Rightarrow> 'c"
  e_possible_root_cats :: "'c list"
  e_category_dict :: "string \<rightharpoonup> 'c list"
  e_beta :: real
  e_use_beta :: bool
  e_pruning_size :: nat
  e_nbest :: nat
  e_use_category_dict :: bool
  e_use_seen_rules :: bool
  e_max_length :: nat
  e_max_steps :: nat

text \<open>
  Modelled from the spec: the input for one sentence (section 6): the surface forms, the
  matrix \<open>P_tag\<close> of shape \<open>n \<times> |tag_list|\<close>, the matrix \<open>P_dep\<close> of shape
  \<open>n \<times> (n + 1)\<close> whose column 0 is ROOT, the terminal constraints, and the
  constraint set's test that rejects a candidate derivation (section 4.6).
\<close>

record ('c, 'k) sentence =
  words :: "string list"
  p_tag :: "real list list"
  p_dep :: "real list list"
  terminals :: "('c \<times> nat) list"
  rejects :: "('c, 'k) derivation \<Rightarrow> bool"

subsection \<open>Scores and the heuristic\<close>

text \<open>
  Modelled from the spec: \<open>dep_lp(dependent, head)\<close> of the ScoreView (section 4.1), with
  the head given as a column of \<open>P_dep\<close>: 0 for ROOT, \<open>j + 1\<close> for token \<open>j\<close>.
\<close>

definition dep_lp :: "('c, 'k) sentence \<Rightarrow> nat \<Rightarrow> nat \<Rightarrow> real" where
  "dep_lp S dependent_token head_column = p_dep S ! dependent_token ! head_column"

text \<open>The greatest element of a list of scores (0 for the empty list).\<close>

fun maximum :: "real list \<Rightarrow> real" where
  "maximum [] = 0"
| "maximum [x] = x"
| "maximum (x # y # ys) = max x (maximum (y # ys))"

text \<open>
  Modelled from the spec: the HeuristicTable (section 4.8):
  \<open>best_tag[i] = max_c tag_lp(i, c)\<close>, \<open>best_dep[i] = max_h dep_lp(i, h)\<close>, and the
  outside estimate of a span \<open>[s, s + l)\<close>, the sum of \<open>best_tag[i] + best_dep[i]\<close>
  over the tokens \<open>i\<close> not in the span.
\<close>

definition best_tag :: "('c, 'k) sentence \<Rightarrow> nat \<Rightarrow> real" where
  "best_tag S i = maximum (p_tag S ! i)"

definition best_dep :: "('c, 'k) sentence \<Rightarrow> nat \<Rightarrow> real" where
  "best_dep S i = maximum (p_dep S ! i)"

definition outside :: "('c, 'k) sentence \<Rightarrow> nat \<Rightarrow> nat \<Rightarrow> real" where
  "outside S s l =
     sum_list (map (\<lambda>i. best_tag S i + best_dep S i)
                 (filter (\<lambda>i. i < s \<or> s + l \<le> i) [0 ..< length (words S)]))"

subsection \<open>The pruner\<close>

text \<open>
  Modelled from the spec: the Pruner (section 4.2), the candidates \<open>(category,
  lexical_lp)\<close> of token \<open>i\<close>. The cascade: the category dictionary restricts the
  candidates of a known word to its entry; a terminal constraint \<open>(c, i)\<close> forces the
  candidate \<open>c\<close> with lexical score 0; the beta threshold keeps the categories with
  \<open>tag_lp(i, c) \<ge> log(beta) + max_c tag_lp(i, c)\<close>; the truncation keeps the
  \<open>pruning_size\<close> best by score, ties broken by category id. An empty result is
  replaced by the single best category of the inventory.
\<close>

definition candidates :: "('c, 'k) engine \<Rightarrow> ('c, 'k) sentence \<Rightarrow> nat \<Rightarrow> ('c \<times> real) list" where
  "candidates E S i =
     (let everything = map (\<lambda>k. (e_inventory E ! k, p_tag S ! i ! k))
                         [0 ..< length (e_inventory E)];
          known = (if e_use_category_dict E
                   then (case e_category_dict E (words S ! i) of
                           None \<Rightarrow> everything
                         | Some cats \<Rightarrow> filter (\<lambda>x. fst x \<in> set cats) everything)
                   else everything);
          forced = (case find (\<lambda>x. snd x = i) (terminals S) of
                      None \<Rightarrow> known
                    | Some x \<Rightarrow> [(fst x, 0)]);
          kept = (if e_use_beta E
                  then filter (\<lambda>x. ln (e_beta E) + best_tag S i \<le> snd x) forced
                  else forced);
          top = take (e_pruning_size E) (sort_key (\<lambda>x. - snd x) kept)
      in if top = [] then take 1 (sort_key (\<lambda>x. - snd x) everything) else top)"

subsection \<open>The rule applicator\<close>

text \<open>Keeps, for each parent category, the first result that has it.\<close>

fun dedup_parents :: "('c \<times> 'k \<times> bool) list \<Rightarrow> ('c \<times> 'k \<times> bool) list" where
  "dedup_parents [] = []"
| "dedup_parents (x # xs) = x # dedup_parents (filter (\<lambda>y. fst y \<noteq> fst x) xs)"

text \<open>
  Modelled from the spec: \<open>apply_binary\<close> of the RuleApplicator (section 4.3): it applies
  each registered combinator in the fixed order and dedups by parent category; if
  \<open>use_seen_rules\<close> is enabled and the pair of the normalised categories is not in the
  seen rules, it returns the empty list.
\<close>

definition apply_binary :: "('c, 'k) engine \<Rightarrow> 'c \<Rightarrow> 'c \<Rightarrow> ('c \<times> 'k \<times> bool) list" where
  "apply_binary E left right =
     (if e_use_seen_rules E \<and>
         (e_normalized E left, e_normalized E right) \<notin> set (e_seen_rules E)
      then []
      else dedup_parents (List.map_filter (\<lambda>combinator. combinator left right)
                            (e_combinators E)))"

text \<open>
  Modelled from the spec: \<open>apply_unary\<close> of the RuleApplicator: the mapped parents of
  the unary-rule table; none immediately after another unary rule on the same span, and on
  the span of the whole sentence only the parents that are root categories.
\<close>

definition apply_unary ::
  "('c, 'k) engine \<Rightarrow> ('c, 'k) sentence \<Rightarrow> ('c, 'k) derivation \<Rightarrow> ('c \<times> 'k) list"
where
  "apply_unary E S d =
     (if is_unary d then []
      else filter (\<lambda>x. span_length d = length (words S) \<longrightarrow> fst x \<in> set (e_possible_root_cats E))
             (e_unary_rules E (category d)))"

subsection \<open>The dependency scorer\<close>

text \<open>
  Modelled from the spec: the DependencyScorer (section 4.9), which scores a derivation as
  it is formed. The head-side indicator says which child is the head; the dependent child's
  head token gets the head child's head token as its head. A derivation that covers the
  whole sentence is the final root node and gets in addition \<open>dep_lp(root_head_token, 0)\<close>.
\<close>

definition root_score :: "('c, 'k) sentence \<Rightarrow> nat \<Rightarrow> nat \<Rightarrow> real" where
  "root_score S len root_head_token =
     (if len = length (words S) then dep_lp S root_head_token 0 else 0)"

definition leaf :: "('c, 'k) sentence \<Rightarrow> nat \<Rightarrow> 'c \<times> real \<Rightarrow> ('c, 'k) derivation" where
  "leaf S i x = Leaf i (words S ! i) (fst x) (snd x + root_score S 1 i)"

definition combine ::
  "('c, 'k) sentence \<Rightarrow> ('c, 'k) derivation \<Rightarrow> ('c, 'k) derivation \<Rightarrow> 'c \<times> 'k \<times> bool \<Rightarrow>
   ('c, 'k) derivation"
where
  "combine S l r x =
     (let head_left = snd (snd x);
          head_head_token = head_token (if head_left then l else r);
          dependent_head_token = head_token (if head_left then r else l)
      in Binary l r (fst x) (fst (snd x)) head_left
           (inside l + inside r + dep_lp S dependent_head_token (Suc head_head_token)
            + root_score S (span_length l + span_length r) head_head_token))"

subsection \<open>Agenda, chart and search loop\<close>

text \<open>
  Modelled from the spec: the state of the search for one sentence: the agenda (section
  4.4), whose entries are a priority, the tiebreak (the value of the insertion counter when
  the entry was pushed) and a derivation; the insertion counter; the derivations recorded
  in the chart and the finalized ones (section 4.5); and the complete parses collected so
  far with their scores.
\<close>

record ('c, 'k) search =
  agenda :: "(real \<times> nat \<times> ('c, 'k) derivation) list"
  pushed :: nat
  cells :: "('c, 'k) derivation list"
  finalized :: "('c, 'k) derivation list"
  parses :: "(('c, 'k) derivation \<times> real) list"

text \<open>
  Modelled from the spec: the order of the max-heap: the greater priority first, and among
  equal priorities the lower insertion counter.
\<close>

definition precedes :: "real \<times> nat \<times> 'x \<Rightarrow> real \<times> nat \<times> 'x \<Rightarrow> bool" where
  "precedes x y \<longleftrightarrow> fst y < fst x \<or> (fst x = fst y \<and> fst (snd x) < fst (snd y))"

fun best :: "real \<times> nat \<times> 'x \<Rightarrow> (real \<times> nat \<times> 'x) list \<Rightarrow> real \<times> nat \<times> 'x" where
  "best b [] = b"
| "best b (x # xs) = best (if precedes x b then x else b) xs"

text \<open>
  Modelled from the spec: the priority of an agenda item, \<open>inside + outside(span)\<close>.
\<close>

definition priority :: "('c, 'k) sentence \<Rightarrow> ('c, 'k) derivation \<Rightarrow> real" where
  "priority S d = inside d + outside S (span_start d) (span_length d)"

text \<open>
  Modelled from the spec: \<open>push\<close> puts a derivation on the agenda with its priority
  and the next tiebreak.
\<close>

definition push :: "('c, 'k) sentence \<Rightarrow> ('c, 'k) derivation \<Rightarrow> ('c, 'k) search \<Rightarrow> ('c, 'k) search" where
  "push S d s =
     s\<lparr>agenda := agenda s @ [(priority S d, pushed s, d)], pushed := Suc (pushed s)\<rparr>"

text \<open>
  Modelled from the spec: a candidate built by a binary rule is pushed and recorded in the
  chart, unless the constraint set rejects it or its cell already has \<open>pruning_size\<close>
  entries with a strictly better inside score.
\<close>

definition offer ::
  "('c, 'k) engine \<Rightarrow> ('c, 'k) sentence \<Rightarrow> ('c, 'k) derivation \<Rightarrow> ('c, 'k) search \<Rightarrow> ('c, 'k) search"
where
  "offer E S d s =
     (if rejects S d \<or>
         e_pruning_size E \<le>
           length (filter (\<lambda>x. signature x = signature d \<and> inside d < inside x) (cells s))
      then s
      else push S d (s\<lparr>cells := cells s @ [d]\<rparr>))"

text \<open>
  Modelled from the spec: the candidates that a new derivation \<open>d\<close> forms with a
  finalized neighbour \<open>nb\<close>, in both orders, respecting adjacency.
\<close>

definition pairings ::
  "('c, 'k) engine \<Rightarrow> ('c, 'k) sentence \<Rightarrow> ('c, 'k) derivation \<Rightarrow> ('c, 'k) derivation \<Rightarrow>
   ('c, 'k) derivation list"
where
  "pairings E S d nb =
     (if span_start d + span_length d = span_start nb
      then map (combine S d nb) (apply_binary E (category d) (category nb)) else [])
     @
     (if span_start nb + span_length nb = span_start d
      then map (combine S nb d) (apply_binary E (category nb) (category d)) else [])"

text \<open>
  Modelled from the spec: one round of the SearchLoop (section 4.7) on a non-empty
  agenda. (1) Pop the best item; if its signature is locked in the chart, discard it.
  (2) Finalize it. (3) If it spans the whole sentence and its category is an admissible
  root, append it to the output, and stop when \<open>N\<close> parses are collected. (4) Apply the
  unary rules and push each parent. (5) For each finalized neighbour, apply the binary
  rules and push the candidates.
\<close>

definition step :: "('c, 'k) engine \<Rightarrow> ('c, 'k) sentence \<Rightarrow> ('c, 'k) search \<Rightarrow> ('c, 'k) search" where
  "step E S s =
     (let top = best (hd (agenda s)) (tl (agenda s));
          d = snd (snd top);
          s1 = s\<lparr>agenda := remove1 top (agenda s)\<rparr>
      in if signature d \<in> set (map signature (finalized s1)) then s1
         else
           let s2 = s1\<lparr>finalized := finalized s1 @ [d]\<rparr>;
               s3 = (if span_length d = length (words S) \<and>
                        category d \<in> set (e_possible_root_cats E)
                     then s2\<lparr>parses := parses s2 @ [(d, inside d)]\<rparr> else s2)
           in if e_nbest E \<le> length (parses s3) then s3
              else
                let s4 = fold (\<lambda>x. push S (Unary d (fst x) (snd x) (inside d)))
                           (apply_unary E S d) s3
                in fold (\<lambda>nb. fold (offer E S) (pairings E S d nb)) (finalized s1) s4)"

text \<open>
  Modelled from the spec: the loop stops when \<open>N\<close> parses are found, when the agenda is
  empty, or when the steps, counted down from \<open>max_steps\<close>, are used up.
\<close>

fun run :: "('c, 'k) engine \<Rightarrow> ('c, 'k) sentence \<Rightarrow> nat \<Rightarrow> ('c, 'k) search \<Rightarrow> ('c, 'k) search" where
  "run E S 0 s = s"
| "run E S (Suc steps) s =
     (if e_nbest E \<le> length (parses s) \<or> agenda s = [] then s
      else run E S steps (step E S s))"

text \<open>
  Modelled from the spec: the initial state: for each token and each of its candidates
  from the pruner, a leaf pushed on the agenda.
\<close>

definition initial :: "('c, 'k) engine \<Rightarrow> ('c, 'k) sentence \<Rightarrow> ('c, 'k) search" where
  "initial E S =
     fold (\<lambda>i. fold (\<lambda>x. push S (leaf S i x)) (candidates E S i))
       [0 ..< length (words S)]
       \<lparr>agenda = [], pushed = 0, cells = [], finalized = [], parses = []\<rparr>"

text \<open>
  Modelled from the spec: the parses of one sentence, an ordered list of up to \<open>nbest\<close>
  pairs of a tree and its score. A sentence longer than \<open>max_length\<close> is skipped and
  yields the empty list.
\<close>

definition parse_sentence ::
  "('c, 'k) engine \<Rightarrow> ('c, 'k) sentence \<Rightarrow> (('c, 'k) derivation \<times> real) list"
where
  "parse_sentence E S =
     (if e_max_length E < length (words S) then []
      else parses (run E S (e_max_steps E) (initial E S)))"

text \<open>
  Modelled from the spec: the admissible derivations of a sentence: the leaves that the
  pruner offers, and what the rule applicator builds from admissible derivations over
  adjacent spans or by a unary rule.
\<close>

inductive admissible :: "('c, 'k) engine \<Rightarrow> ('c, 'k) sentence \<Rightarrow> ('c, 'k) derivation \<Rightarrow> bool"
  for E :: "('c, 'k) engine" and S :: "('c, 'k) sentence"
where
  lexical: "i < length (words S) \<Longrightarrow> x \<in> set (candidates E S i) \<Longrightarrow> admissible E S (leaf S i x)"
| unary: "admissible E S d \<Longrightarrow> x \<in> set (apply_unary E S d) \<Longrightarrow>
          admissible E S (Unary d (fst x) (snd x) (inside d))"
| binary: "admissible E S l \<Longrightarrow> admissible E S r \<Longrightarrow>
           span_start l + span_length l = span_start r \<Longrightarrow>
           x \<in> set (apply_binary E (category l) (category r)) \<Longrightarrow>
           admissible E S (combine S l r x)"

subsection \<open>Notions for the properties of the engine\<close>

text \<open>Every derivation that a state of the search holds has the property \<open>P\<close>.\<close>

definition all_items :: "(('c, 'k) derivation \<Rightarrow> bool) \<Rightarrow> ('c, 'k) search \<Rightarrow> bool" where
  "all_items P s \<longleftrightarrow>
     (\<forall>x \<in> set (agenda s). P (snd (snd x))) \<and>
     (\<forall>d \<in> set (finalized s). P d) \<and>
     (\<forall>x \<in> set (parses s). P (fst x))"





text \<open>Every entry of the agenda has the priority \<open>inside + outside\<close> of its derivation.\<close>

definition priced :: "('c, 'k) sentence \<Rightarrow> ('c, 'k) search \<Rightarrow> bool" where
  "priced S s \<longleftrightarrow> (\<forall>x \<in> set (agenda s). fst x = priority S (snd (snd x)))"



text \<open>
  An engine and a sentence for the instances below. Two tokens, the tags \<open>NP\<close>,
  \<open>N\<close> and \<open>VP\<close>, one combinator that makes an \<open>S\<close> of \<open>NP VP\<close> and an
  \<open>S2\<close> of \<open>N VP\<close> with the right child as head, both root categories, the one
  seen rule \<open>(N, VP)\<close>, and the \<open>n\<close> best parses asked for. \<open>John\<close> is an
  \<open>NP\<close> rather than an \<open>N\<close>, \<open>runs\<close> is a \<open>VP\<close>, and all dependency scores
  are 0.
\<close>

definition toy_engine :: "bool \<Rightarrow> nat \<Rightarrow> (string, nat) engine" where
  "toy_engine flag n =
     \<lparr>e_inventory = [''NP'', ''N'', ''VP''],
      e_combinators =
        [\<lambda>l r. if l = ''NP'' \<and> r = ''VP'' then Some (''S'', 0, False)
               else if l = ''N'' \<and> r = ''VP'' then Some (''S2'', 1, False) else None],
      e_unary_rules = (\<lambda>c. []),
      e_seen_rules = [(''N'', ''VP'')],
      e_normalized = (\<lambda>c. c),
      e_possible_root_cats = [''S'', ''S2''],
      e_category_dict = Map.empty,
      e_beta = 1 / 100000,
      e_use_beta = False,
      e_pruning_size = 2,
      e_nbest = n,
      e_use_category_dict = False,
      e_use_seen_rules = flag,
      e_max_length = 250,
      e_max_steps = 10\<rparr>"

definition toy_sentence :: "(string, nat) sentence" where
  "toy_sentence =
     \<lparr>words = [''John'', ''runs''],
      p_tag = [[0, - 1, - 5], [- 5, - 5, 0]],
      p_dep = [[0, 0, 0], [0, 0, 0]],
      terminals = [],
      rejects = (\<lambda>d. False)\<rparr>"


subsection \<open>The engine behind \<^verbatim>\<open>_parse_doc_tag_and_dep\<close>\<close>







text \<open>
  A grammar, a native part, a parser and a store for the instances of a whole call, for the
  sentence \<open>John runs\<close> and the tags \<open>NP\<close>, \<open>N\<close> and \<open>VP\<close>. The one combinator
  makes an \<open>S\<close> of \<open>NP VP\<close> with the right child as head and an \<open>S2\<close> of \<open>N VP\<close>
  with the left child as head; both are root categories. The engine reads a container as
  its elements in the order of the list \<open>demo_categories\<close>. The parser is an instance of
  a subclass written in Python as the constructor of \<^verbatim>\<open>EnglishCCGParser\<close> leaves it when
  it is called with the keyword arguments \<open>demo_kwargs\<close>: it asks for the two best
  parses and uses neither the beta threshold nor the category dictionary nor the seen
  rules. In the store the tag matrix
  lies at address 0 and the dependency matrix at the other addresses; \<open>John\<close> is an
  \<open>NP\<close> rather than an \<open>N\<close>, \<open>runs\<close> is a \<open>VP\<close>, and all dependency scores are 0
  but the one of \<open>John\<close> with ROOT as its head, which is \<open>x\<close>.
\<close>

definition demo_combinator :: "string \<Rightarrow> string \<Rightarrow> (string \<times> nat \<times> bool) option" where
  "demo_combinator l r =
     (if l = ''NP'' \<and> r = ''VP'' then Some (''S'', 0, False)
      else if l = ''N'' \<and> r = ''VP'' then Some (''S2'', 1, True) else None)"




definition demo_kwargs ::
  "(string, string \<Rightarrow> string \<Rightarrow> (string \<times> nat \<times> bool) option) kwargs"
where
  "demo_kwargs =
     \<lparr>kw_binary_rules = Some [demo_combinator], kw_beta = None, kw_use_beta = Some False,
      kw_use_category_dict = Some False, kw_use_seen_rules = Some False,
      kw_pruning_size = Some 2, kw_nbest = Some 2,
      kw_possible_root_cats = Some [Cat ''S'', Cat ''S2''], kw_max_length = None,
      kw_max_steps = Some 10\<rparr>"

definition demo_parser ::
  "(string, string \<Rightarrow> string \<Rightarrow> (string \<times> nat \<times> bool) option, unit) parser"
where
  "demo_parser =
     \<lparr>binary_rules = Some [demo_combinator], possible_root_cats = [Cat ''S'', Cat ''S2''],
      category_dict = Map.empty, tag_list = [''NP'', ''N'', ''VP''], unary_rules = [],
      seen_rules = [], beta = 1 / 100000, use_beta = False, use_category_dict = False,
      use_seen_rules = False, pruning_size = 2, nbest = 2, max_length = 250, tagger = None,
      lang = ''en'', attrs = Some [''max_steps'' \<mapsto> 10]\<rparr>"


text \<open>The engine and the sentence that \<^verbatim>\<open>ParseSentences\<close> makes of them.\<close>

definition demo_engine :: "(string, nat) engine" where
  "demo_engine =
     \<lparr>e_inventory = [''NP'', ''N'', ''VP''],
      e_combinators = [demo_combinator],
      e_unary_rules = (\<lambda>c. []),
      e_seen_rules = [],
      e_normalized = (\<lambda>c. c),
      e_possible_root_cats = [''S'', ''S2''],
      e_category_dict = Map.empty,
      e_beta = 1 / 100000,
      e_use_beta = False,
      e_pruning_size = 2,
      e_nbest = 2,
      e_use_category_dict = True,
      e_use_seen_rules = False,
      e_max_length = 250,
      e_max_steps = 10\<rparr>"

definition demo_sentence :: "real \<Rightarrow> (string, nat) sentence" where
  "demo_sentence x =
     \<lparr>words = [''John'', ''runs''],
      p_tag = [[0, - 1, - 5], [- 5, - 5, 0]],
      p_dep = [[x, 0, 0], [0, 0, 0]],
      terminals = [],
      rejects = (\<lambda>d. False)\<rparr>"
section \<open>Properties\<close>

subsection \<open>Arrays\<close>

lemma float32_fields [simp]:
  "ncols (float32 n xss) = n" "rows (float32 n xss) = xss"
  "dtype (float32 n xss) = Float32" "c_contiguous (float32 n xss) = True"
  "(float32 n xss)\<lparr>rows := yss\<rparr> = float32 n yss"
  by (simp_all add: float32_def)

lemma float64_fields [simp]:
  "ncols (float64 n xss) = n" "rows (float64 n xss) = xss"
  "dtype (float64 n xss) = Float64" "c_contiguous (float64 n xss) = True"
  "(float64 n xss)\<lparr>rows := yss\<rparr> = float64 n yss"
  by (simp_all add: float64_def)

subsection \<open>The dictionary of tag indices\<close>

lemma tag_dict_snoc: "tag_dict (xs @ [x]) = (tag_dict xs)(x \<mapsto> length xs)"
  by (simp add: tag_dict_def enumerate_append_eq)

lemma tag_dict_Nil: "tag_dict [] = Map.empty"
  by (simp add: tag_dict_def)


lemma tag_dict_None: "tag_dict xs c = None \<longleftrightarrow> c \<notin> set xs"
  by (induction xs rule: rev_induct) (auto simp: tag_dict_Nil tag_dict_snoc)

subsection \<open>Writing terminal constraints into a tag matrix\<close>

lemma set_row_shape:
  "set_row m i v = Inr m' \<Longrightarrow> ncols m' = ncols m \<and> length (rows m') = length (rows m)"
  by (auto simp: set_row_def split: sum.splits)

lemma set_item_shape:
  "set_item m i j v = Inr m' \<Longrightarrow> ncols m' = ncols m \<and> length (rows m') = length (rows m)"
  by (auto simp: set_item_def split: sum.splits)

lemma set_row_other:
  "set_row m i v = Inr m' \<Longrightarrow> axis_index (length (rows m)) i \<noteq> Inr r \<Longrightarrow> rows m' ! r = rows m ! r"
  by (auto simp: set_row_def split: sum.splits)

lemma set_item_other:
  "set_item m i j v = Inr m' \<Longrightarrow> axis_index (length (rows m)) i \<noteq> Inr r \<Longrightarrow> rows m' ! r = rows m ! r"
  by (auto simp: set_item_def split: sum.splits)



lemma constrain_rows_ConsE:
  assumes run: "constrain_rows cast d a ((cat, i) # cs) h = (res, h')"
  obtains
    (stopped) e where "res = Some e" "h' = h"
  | (half) e m1 where "res = Some e" "set_row (h a) i (cast pseudo_neginf) = Inr m1" "h' = h(a := m1)"
  | (stepped) k m1 m2 where "d cat = Some k" "set_row (h a) i (cast pseudo_neginf) = Inr m1"
      "set_item m1 i (int k) (cast 0) = Inr m2"
      "constrain_rows cast d a cs (h(a := m2)) = (res, h')"
proof (cases "d cat")
  case None
  with run have "res = Some KeyError" "h' = h" by simp_all
  then show ?thesis by (rule stopped)
next
  case (Some k)
  note dk = this
  show ?thesis
  proof (cases "set_row (h a) i (cast pseudo_neginf)")
    case (Inl e)
    with run dk have "res = Some e" "h' = h" by simp_all
    then show ?thesis by (rule stopped)
  next
    case (Inr m1)
    note m1 = this
    show ?thesis
    proof (cases "set_item m1 i (int k) (cast 0)")
      case (Inl e)
      with run dk m1 have "res = Some e" "h' = h(a := m1)" by simp_all
      with m1 show ?thesis by (intro half)
    next
      case (Inr m2)
      with run dk m1 have "constrain_rows cast d a cs (h(a := m2)) = (res, h')" by simp
      with dk m1 Inr show ?thesis by (intro stepped)
    qed
  qed
qed

lemma constrain_rows_other:
  "constrain_rows cast d a cs h = (res, h') \<Longrightarrow> b \<noteq> a \<Longrightarrow> h' b = h b"
proof (induction cs arbitrary: h)
  case Nil
  then show ?case by simp
next
  case (Cons x cs)
  obtain cat i where x: "x = (cat, i)" by (cases x)
  from Cons.prems(1) [unfolded x] show ?case
  proof (cases rule: constrain_rows_ConsE)
    case (stopped e)
    then show ?thesis by simp
  next
    case (half e m1)
    with Cons.prems(2) show ?thesis by simp
  next
    case (stepped k m1 m2)
    from Cons.IH [OF stepped(4) Cons.prems(2)] Cons.prems(2) show ?thesis by simp
  qed
qed

lemma constrain_rows_shape:
  "constrain_rows cast d a cs h = (res, h') \<Longrightarrow>
     ncols (h' a) = ncols (h a) \<and> length (rows (h' a)) = length (rows (h a))"
proof (induction cs arbitrary: h)
  case Nil
  then show ?case by simp
next
  case (Cons x cs)
  obtain cat i where x: "x = (cat, i)" by (cases x)
  from Cons.prems(1) [unfolded x] show ?case
  proof (cases rule: constrain_rows_ConsE)
    case (stopped e)
    then show ?thesis by simp
  next
    case (half e m1)
    with set_row_shape [OF half(2)] show ?thesis by simp
  next
    case (stepped k m1 m2)
    from Cons.IH [OF stepped(4)] set_row_shape [OF stepped(2)] set_item_shape [OF stepped(3)]
    show ?thesis by simp
  qed
qed

lemma constrain_rows_frame:
  "constrain_rows cast d a cs h = (res, h') \<Longrightarrow>
   \<forall>(c, i) \<in> set cs. axis_index (length (rows (h a))) i \<noteq> Inr r \<Longrightarrow>
   rows (h' a) ! r = rows (h a) ! r"
proof (induction cs arbitrary: h)
  case Nil
  then show ?case by simp
next
  case (Cons x cs)
  obtain cat i where x: "x = (cat, i)" by (cases x)
  from Cons.prems(2) x have ne: "axis_index (length (rows (h a))) i \<noteq> Inr r" by simp
  from Cons.prems(1) [unfolded x] show ?case
  proof (cases rule: constrain_rows_ConsE)
    case (stopped e)
    then show ?thesis by simp
  next
    case (half e m1)
    with set_row_other [OF half(2) ne] show ?thesis by simp
  next
    case (stepped k m1 m2)
    have s1: "length (rows m1) = length (rows (h a))"
      using set_row_shape [OF stepped(2)] by simp
    have s2: "length (rows m2) = length (rows (h a))"
      using set_item_shape [OF stepped(3)] s1 by simp
    have r2: "rows m2 ! r = rows (h a) ! r"
      using set_row_other [OF stepped(2) ne] set_item_other [OF stepped(3)] ne s1 by simp
    have "\<forall>(c, i) \<in> set cs. axis_index (length (rows ((h(a := m2)) a))) i \<noteq> Inr r"
      using Cons.prems(2) s2 by simp
    from Cons.IH [OF stepped(4) this] r2 show ?thesis by simp
  qed
qed









text \<open>
  Claim C10. \<^verbatim>\<open>build_terminal_constraints\<close> writes to the array it is given and returns
  that same array: the address it returns is its argument, no other array of the store
  changes, the array keeps its shape, and every row that no constraint of the list
  addresses (numpy reads a token index \<open>i < 0\<close> as row \<open>i + nrows\<close>) is the row of the
  input. This holds for the store the call leaves when it raises, too.
\<close>

theorem build_terminal_constraints_in_place:
  "(\<forall>a. fst (build_terminal_constraints cast constraints tag_probs inventory h) = Inr a
        \<longrightarrow> a = tag_probs) \<and>
   (\<forall>b. b \<noteq> tag_probs \<longrightarrow>
        snd (build_terminal_constraints cast constraints tag_probs inventory h) b = h b) \<and>
   shape (snd (build_terminal_constraints cast constraints tag_probs inventory h) tag_probs)
     = shape (h tag_probs) \<and>
   (\<forall>r. (\<forall>(c, i) \<in> set constraints. axis_index (length (rows (h tag_probs))) i \<noteq> Inr r) \<longrightarrow>
        rows (snd (build_terminal_constraints cast constraints tag_probs inventory h) tag_probs) ! r
          = rows (h tag_probs) ! r)"
proof -
  obtain res h' where cr:
    "constrain_rows cast (tag_dict inventory) tag_probs constraints h = (res, h')"
    by (cases "constrain_rows cast (tag_dict inventory) tag_probs constraints h")
  have s: "snd (build_terminal_constraints cast constraints tag_probs inventory h) = h'"
    by (simp add: build_terminal_constraints_def cr split: option.splits)
  have f: "\<forall>a. fst (build_terminal_constraints cast constraints tag_probs inventory h) = Inr a
        \<longrightarrow> a = tag_probs"
    by (simp add: build_terminal_constraints_def cr split: option.splits)
  have o: "\<forall>b. b \<noteq> tag_probs \<longrightarrow> h' b = h b"
    using constrain_rows_other [OF cr] by blast
  have sh: "shape (h' tag_probs) = shape (h tag_probs)"
    using constrain_rows_shape [OF cr] by (simp add: shape_def)
  have fr: "\<forall>r. (\<forall>(c, i) \<in> set constraints. axis_index (length (rows (h tag_probs))) i \<noteq> Inr r) \<longrightarrow>
        rows (h' tag_probs) ! r = rows (h tag_probs) ! r"
    using constrain_rows_frame [OF cr] by blast
  from f o sh fr show ?thesis unfolding s by blast
qed

text \<open>
  An instance: a matrix of two rows and one constraint on token 0; the array at another
  address and row 1 are as before, row 0 is rewritten.
\<close>

theorem build_terminal_constraints_in_place_witness:
  "fst (build_terminal_constraints (\<lambda>x. x) [(''NP'', 0)] 0 [''N'', ''NP'']
      (\<lambda>_. float64 2 [[- 1, - 2], [- 3, - 4 :: real]])) = Inr 0 \<and>
   snd (build_terminal_constraints (\<lambda>x. x) [(''NP'', 0)] 0 [''N'', ''NP'']
      (\<lambda>_. float64 2 [[- 1, - 2], [- 3, - 4 :: real]])) 1
     = float64 2 [[- 1, - 2], [- 3, - 4]] \<and>
   rows (snd (build_terminal_constraints (\<lambda>x. x) [(''NP'', 0)] 0 [''N'', ''NP'']
      (\<lambda>_. float64 2 [[- 1, - 2], [- 3, - 4 :: real]])) 0) ! 1 = [- 3, - 4] \<and>
   rows (snd (build_terminal_constraints (\<lambda>x. x) [(''NP'', 0)] 0 [''N'', ''NP'']
      (\<lambda>_. float64 2 [[- 1, - 2], [- 3, - 4 :: real]])) 0) ! 0 = [- (10 ^ 11), 0]"
proof -
  let ?h = "\<lambda>_::addr. float64 2 [[- 1, - 2], [- 3, - 4 :: real]]"
  let ?run = "build_terminal_constraints (\<lambda>x. x) [(''NP'', 0)] 0 [''N'', ''NP''] ?h"
  note t = build_terminal_constraints_in_place [of "\<lambda>x. x" "[(''NP'', 0)]" 0 "[''N'', ''NP'']" ?h]
  have ret: "fst ?run = Inr 0"
    by (simp add: build_terminal_constraints_def tag_dict_def set_row_def set_item_def
          axis_index_def)
  have other: "snd ?run 1 = ?h 1" using t by simp
  have untouched: "\<forall>(c, i) \<in> set [(''NP'', 0 :: int)]. axis_index (length (rows (?h 0))) i \<noteq> Inr 1"
    by (simp add: axis_index_def)
  with t have row1: "rows (snd ?run 0) ! 1 = rows (?h 0) ! 1" by blast
  have row0: "rows (snd ?run 0) ! 0 = [- (10 ^ 11), 0]"
    by (simp add: build_terminal_constraints_def tag_dict_def set_row_def set_item_def
          axis_index_def pseudo_neginf_def eval_nat_numeral)
  from ret other row1 row0 show ?thesis by simp
qed

subsection \<open>The constructors\<close>

lemma and_then_Inr: "and_then (Inr x) f = f x"
  by (simp add: and_then_def)

lemma and_then_Inl: "and_then (Inl e) f = Inl e"
  by (simp add: and_then_def)


lemma comprehension_total:
  "\<forall>x \<in> set xs. \<exists>y. f x = Inr y \<Longrightarrow> \<exists>ys. comprehension f xs = Inr ys"
  by (induction xs) (auto simp: and_then_Inr)

lemma comprehension_Inr: "comprehension Inr xs = Inr xs"
  by (induction xs) (simp_all add: and_then_Inr)

lemma comprehension_as_category_Str:
  "comprehension (as_category Inr) (map Str xs) = Inr xs"
  by (induction xs) (simp_all add: and_then_Inr)

lemma setattr_max_steps_None: "attrs self = None \<Longrightarrow> setattr_max_steps self v = Inl AttributeError"
  by (simp add: setattr_max_steps_def)

lemma setattr_max_steps_Some:
  "attrs self = Some d \<Longrightarrow>
     setattr_max_steps self v = Inr (self\<lparr>attrs := Some (d(''max_steps'' \<mapsto> v))\<rparr>)"
  by (simp add: setattr_max_steps_def)

text \<open>
  On an object without an instance dictionary, so on every object of the class itself, the
  constructor of \<^verbatim>\<open>EnglishCCGParser\<close> raises, whatever its arguments are.
\<close>

lemma EnglishCCGParser_init_raises:
  "attrs self = None \<Longrightarrow>
     \<exists>e. fst (EnglishCCGParser_init en_default_binary_rules Category_parse self
                 cd inventory ur sr kw) = Some e"
  by (simp add: EnglishCCGParser_init_def Let_def setattr_max_steps_None split: sum.splits)

text \<open>
  On an object of a subclass written in Python, called without keyword arguments, it
  returns (given that \<^verbatim>\<open>Category.parse\<close> reads the five default root categories) and
  leaves the documented defaults.
\<close>

lemma EnglishCCGParser_init_subclass:
  assumes "\<forall>s \<in> set en_possible_root_cats. \<exists>c. Category_parse s = Inr c"
      and "attrs self = Some d"
  shows "\<exists>p. EnglishCCGParser_init en_default_binary_rules Category_parse self
                cd inventory ur sr no_kwargs = (None, p) \<and>
             beta p = 1 / 100000 \<and> pruning_size p = 50 \<and> nbest p = 1 \<and>
             max_length p = 250 \<and> getattr_max_steps p = Inr 100000"
proof -
  have "\<forall>x \<in> set (map Str en_possible_root_cats). \<exists>c. as_category Category_parse x = Inr c"
    using assms(1) by auto
  from comprehension_total [OF this]
  obtain cats where "comprehension (as_category Category_parse) (map Str en_possible_root_cats) = Inr cats"
    by blast
  with assms(2) show ?thesis
    by (simp add: EnglishCCGParser_init_def no_kwargs_def arg_def Let_def
          setattr_max_steps_def getattr_max_steps_def)
qed

text \<open>
  Claim C9. A call of \<^verbatim>\<open>EnglishCCGParser\<close> without keyword arguments constructs no
  parser: the constructor assigns \<open>beta = 1e-5\<close>, \<open>pruning_size = 50\<close>, \<open>nbest = 1\<close>
  and \<open>max_length = 250\<close> and then raises AttributeError at the store of \<^verbatim>\<open>max_steps\<close>,
  an attribute that the class does not declare. The object it leaves has no \<^verbatim>\<open>max_steps\<close>.
  Here for the call with empty tables and categories that are their own strings.
\<close>

theorem EnglishCCGParser_max_steps_undeclared:
  "construct (\<lambda>self. EnglishCCGParser_init ([] :: nat list) Inr self Map.empty [] [] [] no_kwargs)
     (unset_parser :: (string, nat, unit) parser) = Inl AttributeError \<and>
   (let left = snd (EnglishCCGParser_init ([] :: nat list) Inr
                      (unset_parser :: (string, nat, unit) parser) Map.empty [] [] [] no_kwargs)
    in beta left = 1 / 100000 \<and> pruning_size left = 50 \<and> nbest left = 1 \<and>
       max_length left = 250 \<and> getattr_max_steps left = Inl AttributeError)"
proof -
  have "comprehension (as_category Inr) (map Str en_possible_root_cats)
          = (Inr en_possible_root_cats :: error + string list)"
    by (rule comprehension_as_category_Str)
  then show ?thesis
    by (simp add: construct_def EnglishCCGParser_init_def no_kwargs_def arg_def Let_def
          setattr_max_steps_def getattr_max_steps_def unset_parser_def)
qed

text \<open>
  Claim C3. A parser that \<^verbatim>\<open>JapaneseCCGParser.__init__\<close> has constructed holds in
  \<^verbatim>\<open>binary_rules\<close> the argument as the caller passed it, so \<^verbatim>\<open>None\<close> when the caller
  passed none (the assignment of \<^verbatim>\<open>ja_default_binary_rules\<close> is overwritten), and in
  \<^verbatim>\<open>possible_root_cats\<close> the argument as passed, or the default list of strings (the
  list of parsed categories is overwritten). The constructor returns only on an object that
  has an instance dictionary, an instance of a subclass written in Python. On an object of
  the class itself it raises AttributeError at the store of \<^verbatim>\<open>max_steps\<close> when the root
  categories parse; the two attributes of the object it leaves are overwritten all the
  same.
\<close>

theorem JapaneseCCGParser_overwrites:
  assumes "JapaneseCCGParser_init ja_default_binary_rules Category_parse self
             cd inventory ur sr kw = (r, p)"
  shows "(r = None \<longrightarrow>
            attrs self \<noteq> None \<and>
            binary_rules p = kw_binary_rules kw \<and>
            (kw_binary_rules kw = None \<longrightarrow> binary_rules p = None) \<and>
            possible_root_cats p =
              (case kw_possible_root_cats kw of
                 None \<Rightarrow> map Str ja_possible_root_cats
               | Some cats \<Rightarrow> cats)) \<and>
         (attrs self = None \<and>
          (\<exists>cats. comprehension (as_category Category_parse)
                     (case kw_possible_root_cats kw of
                        None \<Rightarrow> map Str ja_possible_root_cats
                      | Some cats \<Rightarrow> cats) = Inr cats) \<longrightarrow>
            r = Some AttributeError \<and>
            binary_rules p = kw_binary_rules kw \<and>
            (kw_binary_rules kw = None \<longrightarrow> binary_rules p = None) \<and>
            possible_root_cats p =
              (case kw_possible_root_cats kw of
                 None \<Rightarrow> map Str ja_possible_root_cats
               | Some cats \<Rightarrow> cats))"
proof (cases "attrs self")
  case None
  with assms show ?thesis
    by (auto simp: JapaneseCCGParser_init_def Let_def setattr_max_steps_def
          split: sum.splits if_splits)
next
  case (Some d)
  with assms show ?thesis
    by (auto simp: JapaneseCCGParser_init_def Let_def setattr_max_steps_def
          split: sum.splits if_splits)
qed

text \<open>
  An instance: the Japanese constructor called without keyword arguments, on a new object
  of a subclass written in Python, where it returns, and on a new object of the class
  itself, where it raises.
\<close>

theorem JapaneseCCGParser_overwrites_witness:
  "(\<exists>p. JapaneseCCGParser_init [7 :: nat] Inr
           (unset_subclass_parser :: (string, nat, unit) parser) Map.empty [] [] [] no_kwargs
           = (None, p) \<and>
         binary_rules p = None \<and> possible_root_cats p = map Str ja_possible_root_cats) \<and>
   (\<exists>p. JapaneseCCGParser_init [7 :: nat] Inr
           (unset_parser :: (string, nat, unit) parser) Map.empty [] [] [] no_kwargs
           = (Some AttributeError, p) \<and>
         binary_rules p = None \<and> possible_root_cats p = map Str ja_possible_root_cats)"
proof -
  have roots: "comprehension (as_category Inr) (map Str ja_possible_root_cats)
                 = (Inr ja_possible_root_cats :: error + string list)"
    by (rule comprehension_as_category_Str)
  then obtain p where p: "JapaneseCCGParser_init [7 :: nat] Inr
      (unset_subclass_parser :: (string, nat, unit) parser) Map.empty [] [] [] no_kwargs = (None, p)"
    by (simp add: JapaneseCCGParser_init_def no_kwargs_def Let_def setattr_max_steps_def
          unset_subclass_parser_def unset_parser_def)
  obtain r q where q: "JapaneseCCGParser_init [7 :: nat] Inr
      (unset_parser :: (string, nat, unit) parser) Map.empty [] [] [] no_kwargs = (r, q)"
    by (cases "JapaneseCCGParser_init [7 :: nat] Inr
      (unset_parser :: (string, nat, unit) parser) Map.empty [] [] [] no_kwargs")
  have none: "attrs (unset_parser :: (string, nat, unit) parser) = None"
    by (simp add: unset_parser_def)
  from JapaneseCCGParser_overwrites [OF p]
  have returned: "binary_rules p = None \<and> possible_root_cats p = map Str ja_possible_root_cats"
    by (simp add: no_kwargs_def)
  from JapaneseCCGParser_overwrites [OF q] none roots
  have raised: "r = Some AttributeError \<and> binary_rules q = None \<and>
                possible_root_cats q = map Str ja_possible_root_cats"
    by (simp add: no_kwargs_def)
  from p q returned raised show ?thesis by blast
qed

subsection \<open>The JSON loader\<close>

text \<open>
  The second build of the seen rules raises where the first one does, and otherwise yields
  the pairs of the first build with the features stripped.
\<close>

lemma comprehension_parse_seen_rule:
  "comprehension (parse_seen_rule Category_parse strip_feat) xs =
     and_then (comprehension (parse_pair Category_parse) xs)
       (\<lambda>ys. Inr (map (\<lambda>(c1, c2). (preprocess strip_feat c1, preprocess strip_feat c2)) ys))"
proof (induction xs)
  case Nil
  then show ?case by (simp add: and_then_Inr)
next
  case (Cons x xs)
  show ?case
  proof (cases "parse_pair Category_parse x")
    case (Inl e)
    then have "parse_seen_rule Category_parse strip_feat x = Inl e"
      by (auto simp: parse_pair_def parse_seen_rule_def and_then_def split: sum.splits)
    with Inl show ?thesis by (simp add: and_then_Inl)
  next
    case (Inr y)
    then have "parse_seen_rule Category_parse strip_feat x =
                 Inr (preprocess strip_feat (fst y), preprocess strip_feat (snd y))"
      by (auto simp: parse_pair_def parse_seen_rule_def and_then_def split: sum.splits)
    with Inr Cons.IH show ?thesis
      by (cases "comprehension (parse_pair Category_parse) xs")
         (simp_all add: and_then_Inl and_then_Inr case_prod_beta)
  qed
qed

text \<open>
  Claim C5. \<^verbatim>\<open>from_json\<close> is the loader without the first, unstripped build of the
  seen rules: both raise the same exception or call the constructor with the same
  arguments. When the four entries of the input parse, the constructor gets as seen rules
  the pairs of categories of the entry \<^verbatim>\<open>seen_rules\<close>, each category with the features
  \<^verbatim>\<open>[X]\<close> and \<^verbatim>\<open>[nb]\<close> stripped.
\<close>

theorem from_json_seen_rules:
  "from_json cls Category_parse strip_feat json kw =
     from_json_single_build cls Category_parse strip_feat json kw \<and>
   (\<forall>ur cd inventory sr.
      comprehension (parse_pair Category_parse) (json_unary_rules json) = Inr ur \<and>
      parse_cat_dict Category_parse (json_cat_dict json) Map.empty = Inr cd \<and>
      comprehension Category_parse (json_targets json) = Inr inventory \<and>
      comprehension (parse_pair Category_parse) (json_seen_rules json) = Inr sr \<longrightarrow>
      from_json cls Category_parse strip_feat json kw =
        cls cd inventory ur
          (map (\<lambda>(c1, c2). (preprocess strip_feat c1, preprocess strip_feat c2)) sr) kw)"
proof -
  have same: "from_json cls Category_parse strip_feat json kw =
     from_json_single_build cls Category_parse strip_feat json kw"
    unfolding from_json_def from_json_single_build_def comprehension_parse_seen_rule
    by (cases "comprehension (parse_pair Category_parse) (json_seen_rules json)")
       (simp_all add: and_then_Inl and_then_Inr and_then_def split: sum.splits)
  have passed: "\<forall>ur cd inventory sr.
      comprehension (parse_pair Category_parse) (json_unary_rules json) = Inr ur \<and>
      parse_cat_dict Category_parse (json_cat_dict json) Map.empty = Inr cd \<and>
      comprehension Category_parse (json_targets json) = Inr inventory \<and>
      comprehension (parse_pair Category_parse) (json_seen_rules json) = Inr sr \<longrightarrow>
      from_json cls Category_parse strip_feat json kw =
        cls cd inventory ur
          (map (\<lambda>(c1, c2). (preprocess strip_feat c1, preprocess strip_feat c2)) sr) kw"
    by (simp add: from_json_def comprehension_parse_seen_rule and_then_Inr)
  from same passed show ?thesis by blast
qed

text \<open>
  An instance: one seen rule, categories that are their own strings, a \<^verbatim>\<open>strip_feat\<close>
  that knows the two categories of the rule, and a constructor that answers with the seen
  rules it was given.
\<close>

theorem from_json_seen_rules_witness:
  "from_json (\<lambda>cd inventory ur sr kw. Inr sr) Inr
     (\<lambda>feat cat. if feat = ''[X]'' \<and> cat = ''S[X]/NP'' then ''S/NP''
                  else if feat = ''[nb]'' \<and> cat = ''NP[nb]'' then ''NP'' else cat)
     \<lparr>json_unary_rules = [], json_cat_dict = [], json_targets = [],
      json_seen_rules = [(''S[X]/NP'', ''NP[nb]'')]\<rparr> ()
   = (Inr [(''S/NP'', ''NP'')] :: error + (string \<times> string) list)"
proof -
  let ?json = "\<lparr>json_unary_rules = [], json_cat_dict = [], json_targets = [],
      json_seen_rules = [(''S[X]/NP'', ''NP[nb]'')]\<rparr>"
  let ?strip = "\<lambda>feat cat. if feat = ''[X]'' \<and> cat = ''S[X]/NP'' then ''S/NP''
                  else if feat = ''[nb]'' \<and> cat = ''NP[nb]'' then ''NP'' else cat"
  have parsed:
    "comprehension (parse_pair Inr) (json_unary_rules ?json) = (Inr [] :: error + (string \<times> string) list) \<and>
     parse_cat_dict Inr (json_cat_dict ?json) Map.empty = (Inr Map.empty :: error + (string \<rightharpoonup> string list)) \<and>
     comprehension Inr (json_targets ?json) = (Inr [] :: error + string list) \<and>
     comprehension (parse_pair Inr) (json_seen_rules ?json)
       = (Inr [(''S[X]/NP'', ''NP[nb]'')] :: error + (string \<times> string) list)"
    by (simp add: parse_pair_def and_then_Inr)
  note t = from_json_seen_rules [of "\<lambda>cd inventory ur sr kw. Inr sr" Inr ?strip ?json "()"]
  from t [THEN conjunct2, rule_format, OF parsed]
  show ?thesis by (simp add: preprocess_def)
qed

subsection \<open>The shape check of a batch\<close>




lemma shape_mismatch_layout:
  "\<forall>a. layout (h1 a) = layout (h a) \<Longrightarrow> shape_mismatch h1 ts sent p = shape_mismatch h ts sent p"
  by (simp add: shape_mismatch_def layout_def)












text \<open>The example parser is a parser that the constructor makes, and its configuration converts.\<close>

lemma example_parser_constructed:
  "construct (\<lambda>self. EnglishCCGParser_init [0] Inr self Map.empty [''N'', ''NP''] [] []
                (no_kwargs\<lparr>kw_nbest := Some 2\<rparr>))
     unset_subclass_parser = Inr example_parser"
proof -
  have "comprehension (as_category Inr) (map Str en_possible_root_cats)
          = (Inr en_possible_root_cats :: error + string list)"
    by (rule comprehension_as_category_Str)
  then show ?thesis
    by (simp add: construct_def EnglishCCGParser_init_def no_kwargs_def arg_def list_or_def
          Let_def setattr_max_steps_def unset_subclass_parser_def unset_parser_def
          example_parser_def)
qed





subsection \<open>The language tag of the trees\<close>

lemma parse_doc_lang:
  assumes "parse_doc_tag_and_dep native cast self sents probs inventory constraints h = (Inr res, h')"
      and "r \<in> set res" and "x \<in> set r"
  shows "tree_lang (fst x) = lang self"
proof -
  from assms(1) obtain n cres where "res = collect_results n (lang self) (length sents) cres"
    by (auto simp: parse_doc_tag_and_dep_def Let_def split: sum.splits prod.splits)
  with assms(2,3) show ?thesis by (auto simp: collect_results_def)
qed

text \<open>
  Claim C6. The language tag of a constructed \<^verbatim>\<open>JapaneseCCGParser\<close> is \<^verbatim>\<open>b'en'\<close>, the
  value that the constructor of \<^verbatim>\<open>EnglishCCGParser\<close> gives to every parser it
  constructs, and every tree that \<^verbatim>\<open>_parse_doc_tag_and_dep\<close> returns for the Japanese
  parser carries that tag. A constructed parser is an instance of a subclass written in
  Python: the constructor returns only on an object that has an instance dictionary.
\<close>

theorem JapaneseCCGParser_lang:
  assumes "JapaneseCCGParser_init ja_default_binary_rules Category_parse self
             cd inventory ur sr kw = (None, p)"
  shows "lang p = ''en'' \<and> attrs self \<noteq> None \<and>
         (\<forall>q. EnglishCCGParser_init en_default_binary_rules Category_parse' self'
                  cd' inventory' ur' sr' kw' = (None, q) \<longrightarrow> lang q = lang p) \<and>
         (\<forall>res h'. parse_doc_tag_and_dep native cast p sents probs tags constraints h = (Inr res, h')
              \<longrightarrow> (\<forall>r \<in> set res. \<forall>x \<in> set r. tree_lang (fst x) = ''en''))"
proof -
  from assms have en: "lang p = ''en''" and dict: "attrs self \<noteq> None"
    by (auto simp: JapaneseCCGParser_init_def Let_def setattr_max_steps_def
          split: sum.splits if_splits option.splits)
  have english: "\<forall>q. EnglishCCGParser_init en_default_binary_rules Category_parse' self'
                  cd' inventory' ur' sr' kw' = (None, q) \<longrightarrow> lang q = lang p"
    unfolding en
    by (auto simp: EnglishCCGParser_init_def Let_def setattr_max_steps_def
          split: sum.splits option.splits)
  have trees: "\<forall>res h'. parse_doc_tag_and_dep native cast p sents probs tags constraints h = (Inr res, h')
              \<longrightarrow> (\<forall>r \<in> set res. \<forall>x \<in> set r. tree_lang (fst x) = ''en'')"
    using parse_doc_lang [of native cast p sents probs tags constraints h] en by auto
  from en dict english trees show ?thesis by blast
qed

text \<open>
  An instance: the Japanese constructor called with binary rules and a root category of
  the caller, the English one without keyword arguments, both on new objects of subclasses
  written in Python, with the two tags of the example; and the sentence \<open>a b\<close> parsed
  by the Japanese parser.
\<close>

theorem JapaneseCCGParser_lang_witness:
  "\<exists>p q. construct (\<lambda>self. JapaneseCCGParser_init [7 :: nat] Inr self Map.empty
                       [''N'', ''NP''] [] []
                       (no_kwargs\<lparr>kw_binary_rules := Some [9],
                                  kw_possible_root_cats := Some [Cat ''S'']\<rparr>))
            (unset_subclass_parser :: (string, nat, unit) parser) = Inr p \<and>
         construct (\<lambda>self. EnglishCCGParser_init [8 :: nat] Inr self Map.empty
                       [''N'', ''NP''] [] [] no_kwargs)
            (unset_subclass_parser :: (string, nat, unit) parser) = Inr q \<and>
         lang p = ''en'' \<and> lang q = lang p \<and>
         fst (parse_doc_tag_and_dep simple_native (\<lambda>x. x) p [''a b''] [(0, 1)] None None
                example_store) = Inr [[(Tree 0 ''en'', 0)]]"
proof -
  let ?kw = "no_kwargs\<lparr>kw_binary_rules := Some [9 :: nat],
                        kw_possible_root_cats := Some [Cat ''S'']\<rparr>"
  obtain p where p: "JapaneseCCGParser_init [7 :: nat] Inr
      (unset_subclass_parser :: (string, nat, unit) parser) Map.empty [''N'', ''NP''] [] []
      ?kw = (None, p)"
    and fields: "tag_list p = [''N'', ''NP'']" "nbest p = 1" "pruning_size p = 50"
      "max_length p = 250" "getattr_max_steps p = Inr 100000" "binary_rules p = Some [9]"
      "use_category_dict p" "category_dict p = Map.empty" "use_seen_rules p" "seen_rules p = []"
    by (simp add: JapaneseCCGParser_init_def no_kwargs_def arg_def Let_def setattr_max_steps_def
          getattr_max_steps_def unset_subclass_parser_def unset_parser_def and_then_Inr)
  have "comprehension (as_category Inr) (map Str en_possible_root_cats)
          = (Inr en_possible_root_cats :: error + string list)"
    by (rule comprehension_as_category_Str)
  then obtain q where q: "EnglishCCGParser_init [8 :: nat] Inr
      (unset_subclass_parser :: (string, nat, unit) parser) Map.empty [''N'', ''NP''] [] []
      no_kwargs = (None, q)"
    by (simp add: EnglishCCGParser_init_def no_kwargs_def Let_def setattr_max_steps_def
          unset_subclass_parser_def unset_parser_def)
  obtain res h' where run: "parse_doc_tag_and_dep simple_native (\<lambda>x. x) p [''a b''] [(0, 1)]
      None None example_store = (Inr res, h')"
    and res: "res = [[(Tree 0 (lang p), 0)]]"
    using fields
    by (simp add: parse_doc_tag_and_dep_def marshal_def simple_native_def and_then_Inr
          as_unsigned_def list_or_def prepare_constraints_def shape_def example_store_def
          acquire_buffer_def first_cell_def collect_results_def Let_def)
  from JapaneseCCGParser_lang [OF p, of "[8 :: nat]" Inr unset_subclass_parser Map.empty
      "[''N'', ''NP'']" "[]" "[]" no_kwargs simple_native "\<lambda>x. x" "[''a b'']" "[(0, 1)]" None None
      example_store] q run
  have "lang p = ''en''" "lang q = lang p" by auto
  with p q run res show ?thesis by (simp add: construct_def)
qed
section \<open>Properties of the engine of the specification\<close>

subsection \<open>The seen-rules filter and the admissible derivations\<close>

text \<open>
  The filter only empties results of the rule applicator; the pruner and the unary rules
  do not look at it.
\<close>

lemma apply_binary_filter:
  "set (apply_binary (E\<lparr>e_use_seen_rules := True\<rparr>) l r)
     \<subseteq> set (apply_binary (E\<lparr>e_use_seen_rules := False\<rparr>) l r)"
  by (simp add: apply_binary_def)

lemma candidates_filter:
  "candidates (E\<lparr>e_use_seen_rules := b\<rparr>) S i = candidates E S i"
  by (simp add: candidates_def Let_def cong: option.case_cong if_cong)

lemma apply_unary_filter:
  "apply_unary (E\<lparr>e_use_seen_rules := b\<rparr>) S d = apply_unary E S d"
  by (simp add: apply_unary_def)

lemma admissible_filter:
  "admissible (E\<lparr>e_use_seen_rules := True\<rparr>) S d \<Longrightarrow>
   admissible (E\<lparr>e_use_seen_rules := False\<rparr>) S d"
proof (induction rule: admissible.induct)
  case (lexical i x)
  then show ?case
    by (intro admissible.lexical) (simp_all add: candidates_filter)
next
  case (unary d x)
  then show ?case
    by (intro admissible.unary) (simp_all add: apply_unary_filter)
next
  case (binary l r x)
  then show ?case
    using apply_binary_filter [of E "category l" "category r"]
    by (intro admissible.binary) auto
qed

text \<open>The search holds admissible derivations only.\<close>

lemma all_items_push:
  "all_items P s \<Longrightarrow> P d \<Longrightarrow> all_items P (push S d s)"
  by (simp add: all_items_def push_def)

lemma all_items_fold_push:
  "all_items P s \<Longrightarrow> \<forall>x \<in> set xs. P (f x) \<Longrightarrow> all_items P (fold (\<lambda>x. push S (f x)) xs s)"
  by (induction xs arbitrary: s) (simp_all add: all_items_push)

lemma all_items_offer:
  "all_items P s \<Longrightarrow> P d \<Longrightarrow> all_items P (offer E S d s)"
  by (simp add: all_items_def offer_def push_def)

lemma all_items_fold_offer:
  "all_items P s \<Longrightarrow> \<forall>d \<in> set ds. P d \<Longrightarrow> all_items P (fold (offer E S) ds s)"
  by (induction ds arbitrary: s) (simp_all add: all_items_offer)

lemma all_items_fold_leaves:
  "all_items (admissible E S) s \<Longrightarrow> \<forall>j \<in> set js. j < length (words S) \<Longrightarrow>
   all_items (admissible E S)
     (fold (\<lambda>i. fold (\<lambda>x. push S (leaf S i x)) (candidates E S i)) js s)"
proof (induction js arbitrary: s)
  case Nil
  then show ?case by simp
next
  case (Cons j js)
  from Cons.prems(2) have "\<forall>x \<in> set (candidates E S j). admissible E S (leaf S j x)"
    by (auto intro: admissible.lexical)
  from all_items_fold_push [OF Cons.prems(1) this]
  have "all_items (admissible E S) (fold (\<lambda>x. push S (leaf S j x)) (candidates E S j) s)" .
  from Cons.IH [OF this] Cons.prems(2) show ?case by simp
qed

lemma all_items_initial:
  "all_items (admissible E S) (initial E S)"
  unfolding initial_def
  by (rule all_items_fold_leaves) (simp_all add: all_items_def)

lemma best_in: "best b xs \<in> set (b # xs)"
  by (induction xs arbitrary: b) auto

lemma best_agenda: "agenda s \<noteq> [] \<Longrightarrow> best (hd (agenda s)) (tl (agenda s)) \<in> set (agenda s)"
  using best_in [of "hd (agenda s)" "tl (agenda s)"] by (cases "agenda s") auto

lemma pairings_admissible:
  assumes "admissible E S d" "admissible E S nb"
  shows "\<forall>p \<in> set (pairings E S d nb). admissible E S p"
  using assms by (auto simp: pairings_def intro: admissible.binary)

lemma all_items_fold_pairings:
  assumes "all_items (admissible E S) s" "admissible E S d" "\<forall>nb \<in> set nbs. admissible E S nb"
  shows "all_items (admissible E S) (fold (\<lambda>nb. fold (offer E S) (pairings E S d nb)) nbs s)"
  using assms
proof (induction nbs arbitrary: s)
  case Nil
  then show ?case by simp
next
  case (Cons nb nbs)
  from Cons.prems have "\<forall>p \<in> set (pairings E S d nb). admissible E S p"
    by (intro pairings_admissible) simp_all
  from all_items_fold_offer [OF Cons.prems(1) this]
  have "all_items (admissible E S) (fold (offer E S) (pairings E S d nb) s)" .
  from Cons.IH [OF this Cons.prems(2)] Cons.prems(3) show ?case by simp
qed

lemma all_items_step:
  assumes inv: "all_items (admissible E S) s" and ne: "agenda s \<noteq> []"
  shows "all_items (admissible E S) (step E S s)"
proof -
  let ?top = "best (hd (agenda s)) (tl (agenda s))"
  let ?d = "snd (snd ?top)"
  let ?s1 = "s\<lparr>agenda := remove1 ?top (agenda s)\<rparr>"
  let ?s2 = "?s1\<lparr>finalized := finalized ?s1 @ [?d]\<rparr>"
  let ?s3 = "if span_length ?d = length (words S) \<and> category ?d \<in> set (e_possible_root_cats E)
             then ?s2\<lparr>parses := parses ?s2 @ [(?d, inside ?d)]\<rparr> else ?s2"
  let ?s4 = "fold (\<lambda>x. push S (Unary ?d (fst x) (snd x) (inside ?d))) (apply_unary E S ?d) ?s3"
  from best_agenda [OF ne] inv have d: "admissible E S ?d" by (simp add: all_items_def)
  have s1: "all_items (admissible E S) ?s1"
    using inv by (auto simp: all_items_def dest: notin_set_remove1)
  have s2: "all_items (admissible E S) ?s2"
    using s1 d by (simp add: all_items_def)
  have s3: "all_items (admissible E S) ?s3"
    using s2 d by (simp add: all_items_def)
  have "\<forall>x \<in> set (apply_unary E S ?d). admissible E S (Unary ?d (fst x) (snd x) (inside ?d))"
    using d by (auto intro: admissible.unary)
  from all_items_fold_push [OF s3 this] have s4: "all_items (admissible E S) ?s4" .
  have nbs: "\<forall>nb \<in> set (finalized ?s1). admissible E S nb"
    using s1 by (simp add: all_items_def)
  have s5: "all_items (admissible E S)
      (fold (\<lambda>nb. fold (offer E S) (pairings E S ?d nb)) (finalized ?s1) ?s4)"
    by (rule all_items_fold_pairings [OF s4 d nbs])
  show ?thesis
    unfolding step_def Let_def using s1 s3 s5 by (simp only: if_split) auto
qed

lemma all_items_run:
  "all_items (admissible E S) s \<Longrightarrow> all_items (admissible E S) (run E S steps s)"
  by (induction steps arbitrary: s) (auto simp: all_items_step)


subsection \<open>A run of the search, with and without the filter\<close>

text \<open>
  The toy sentence, step by step. The combinator of the toy engine makes \<open>S\<close> of
  \<open>NP VP\<close> and \<open>S2\<close> of \<open>N VP\<close>; only the pair \<open>(N, VP)\<close> has been seen. Without
  the filter the search pops \<open>John\<close> as \<open>NP\<close>, then \<open>runs\<close>, builds \<open>S\<close> from the
  two and pops it. With the filter the pair \<open>(NP, VP)\<close> yields nothing; the search goes
  on to \<open>John\<close> as \<open>N\<close> and builds \<open>S2\<close> from that.
\<close>

lemma toy_fields [simp]:
  "e_nbest (toy_engine flag n) = n"
  "e_possible_root_cats (toy_engine flag n) = [''S'', ''S2'']"
  "e_pruning_size (toy_engine flag n) = 2"
  "e_max_length (toy_engine flag n) = 250"
  "e_max_steps (toy_engine flag n) = 10"
  "e_unary_rules (toy_engine flag n) c = []"
  by (simp_all add: toy_engine_def)

lemma toy_sentence_fields [simp]:
  "words toy_sentence = [''John'', ''runs'']"
  "rejects toy_sentence d = False"
  "p_dep toy_sentence = [[0, 0, 0], [0, 0, 0]]"
  by (simp_all add: toy_sentence_def)

lemma toy_apply_binary:
  "apply_binary (toy_engine flag n) l r =
     (if l = ''NP'' \<and> r = ''VP'' \<and> \<not> flag then [(''S'', 0, False)]
      else if l = ''N'' \<and> r = ''VP'' then [(''S2'', 1, False)] else [])"
  by (auto simp: apply_binary_def toy_engine_def List.map_filter_def)

lemma toy_candidates:
  "candidates (toy_engine flag n) toy_sentence 0 = [(''NP'', 0), (''N'', - 1)]"
  "candidates (toy_engine flag n) toy_sentence (Suc 0) = [(''VP'', 0), (''NP'', - 5)]"
  by (simp_all add: candidates_def toy_engine_def toy_sentence_def Let_def)

lemma toy_outside [simp]: "outside toy_sentence s l = 0"
  by (simp add: outside_def best_tag_def best_dep_def toy_sentence_def eval_nat_numeral upt_rec)

lemma toy_initial:
  "initial (toy_engine flag n) toy_sentence =
     \<lparr>agenda = [(0, 0, Leaf 0 ''John'' ''NP'' 0), (- 1, Suc 0, Leaf 0 ''John'' ''N'' (- 1)),
                (0, 2, Leaf (Suc 0) ''runs'' ''VP'' 0), (- 5, 3, Leaf (Suc 0) ''runs'' ''NP'' (- 5))],
      pushed = 4, cells = [], finalized = [], parses = []\<rparr>"
  by (simp add: initial_def toy_candidates push_def priority_def leaf_def root_score_def
        eval_nat_numeral upt_rec)

lemmas step_defs = step_def Let_def precedes_def signature_def apply_unary_def pairings_def
  offer_def push_def priority_def combine_def root_score_def dep_lp_def toy_apply_binary

lemma toy_step1:
  "0 < n \<Longrightarrow>
   step (toy_engine flag n) toy_sentence
     \<lparr>agenda = [(0, 0, Leaf 0 ''John'' ''NP'' 0), (- 1, Suc 0, Leaf 0 ''John'' ''N'' (- 1)),
                (0, 2, Leaf (Suc 0) ''runs'' ''VP'' 0), (- 5, 3, Leaf (Suc 0) ''runs'' ''NP'' (- 5))],
      pushed = 4, cells = [], finalized = [], parses = []\<rparr> =
     \<lparr>agenda = [(- 1, Suc 0, Leaf 0 ''John'' ''N'' (- 1)),
                (0, 2, Leaf (Suc 0) ''runs'' ''VP'' 0), (- 5, 3, Leaf (Suc 0) ''runs'' ''NP'' (- 5))],
      pushed = 4, cells = [], finalized = [Leaf 0 ''John'' ''NP'' 0], parses = []\<rparr>"
  by (simp add: step_defs)

lemma toy_step2_off:
  "0 < n \<Longrightarrow>
   step (toy_engine False n) toy_sentence
     \<lparr>agenda = [(- 1, Suc 0, Leaf 0 ''John'' ''N'' (- 1)),
                (0, 2, Leaf (Suc 0) ''runs'' ''VP'' 0), (- 5, 3, Leaf (Suc 0) ''runs'' ''NP'' (- 5))],
      pushed = 4, cells = [], finalized = [Leaf 0 ''John'' ''NP'' 0], parses = []\<rparr> =
     \<lparr>agenda = [(- 1, Suc 0, Leaf 0 ''John'' ''N'' (- 1)), (- 5, 3, Leaf (Suc 0) ''runs'' ''NP'' (- 5)),
                (0, 4, Binary (Leaf 0 ''John'' ''NP'' 0) (Leaf (Suc 0) ''runs'' ''VP'' 0) ''S'' 0 False 0)],
      pushed = 5,
      cells = [Binary (Leaf 0 ''John'' ''NP'' 0) (Leaf (Suc 0) ''runs'' ''VP'' 0) ''S'' 0 False 0],
      finalized = [Leaf 0 ''John'' ''NP'' 0, Leaf (Suc 0) ''runs'' ''VP'' 0], parses = []\<rparr>"
  by (simp add: step_defs)

lemma toy_step3_off:
  "step (toy_engine False (Suc 0)) toy_sentence
     \<lparr>agenda = [(- 1, Suc 0, Leaf 0 ''John'' ''N'' (- 1)), (- 5, 3, Leaf (Suc 0) ''runs'' ''NP'' (- 5)),
                (0, 4, Binary (Leaf 0 ''John'' ''NP'' 0) (Leaf (Suc 0) ''runs'' ''VP'' 0) ''S'' 0 False 0)],
      pushed = 5,
      cells = [Binary (Leaf 0 ''John'' ''NP'' 0) (Leaf (Suc 0) ''runs'' ''VP'' 0) ''S'' 0 False 0],
      finalized = [Leaf 0 ''John'' ''NP'' 0, Leaf (Suc 0) ''runs'' ''VP'' 0], parses = []\<rparr> =
     \<lparr>agenda = [(- 1, Suc 0, Leaf 0 ''John'' ''N'' (- 1)), (- 5, 3, Leaf (Suc 0) ''runs'' ''NP'' (- 5))],
      pushed = 5,
      cells = [Binary (Leaf 0 ''John'' ''NP'' 0) (Leaf (Suc 0) ''runs'' ''VP'' 0) ''S'' 0 False 0],
      finalized = [Leaf 0 ''John'' ''NP'' 0, Leaf (Suc 0) ''runs'' ''VP'' 0,
                   Binary (Leaf 0 ''John'' ''NP'' 0) (Leaf (Suc 0) ''runs'' ''VP'' 0) ''S'' 0 False 0],
      parses = [(Binary (Leaf 0 ''John'' ''NP'' 0) (Leaf (Suc 0) ''runs'' ''VP'' 0) ''S'' 0 False 0, 0)]\<rparr>"
  by (simp add: step_defs)

lemma run_unfold:
  "run E S (numeral k) s =
     (if e_nbest E \<le> length (parses s) \<or> agenda s = [] then s
      else run E S (pred_numeral k) (step E S s))"
  by (simp add: numeral_eq_Suc)

lemma toy_off:
  "parse_sentence (toy_engine False 1) toy_sentence =
     [(Binary (Leaf 0 ''John'' ''NP'' 0) (Leaf 1 ''runs'' ''VP'' 0) ''S'' 0 False 0, 0)]"
  by (simp add: parse_sentence_def toy_initial run_unfold toy_step1 toy_step2_off toy_step3_off)

lemma toy_step2_on:
  "0 < n \<Longrightarrow>
   step (toy_engine True n) toy_sentence
     \<lparr>agenda = [(- 1, Suc 0, Leaf 0 ''John'' ''N'' (- 1)),
                (0, 2, Leaf (Suc 0) ''runs'' ''VP'' 0), (- 5, 3, Leaf (Suc 0) ''runs'' ''NP'' (- 5))],
      pushed = 4, cells = [], finalized = [Leaf 0 ''John'' ''NP'' 0], parses = []\<rparr> =
     \<lparr>agenda = [(- 1, Suc 0, Leaf 0 ''John'' ''N'' (- 1)), (- 5, 3, Leaf (Suc 0) ''runs'' ''NP'' (- 5))],
      pushed = 4, cells = [],
      finalized = [Leaf 0 ''John'' ''NP'' 0, Leaf (Suc 0) ''runs'' ''VP'' 0], parses = []\<rparr>"
  by (simp add: step_defs)

lemma toy_step3_on:
  "0 < n \<Longrightarrow>
   step (toy_engine True n) toy_sentence
     \<lparr>agenda = [(- 1, Suc 0, Leaf 0 ''John'' ''N'' (- 1)), (- 5, 3, Leaf (Suc 0) ''runs'' ''NP'' (- 5))],
      pushed = 4, cells = [],
      finalized = [Leaf 0 ''John'' ''NP'' 0, Leaf (Suc 0) ''runs'' ''VP'' 0], parses = []\<rparr> =
     \<lparr>agenda = [(- 5, 3, Leaf (Suc 0) ''runs'' ''NP'' (- 5)),
                (- 1, 4, Binary (Leaf 0 ''John'' ''N'' (- 1)) (Leaf (Suc 0) ''runs'' ''VP'' 0) ''S2'' (Suc 0) False (- 1))],
      pushed = 5,
      cells = [Binary (Leaf 0 ''John'' ''N'' (- 1)) (Leaf (Suc 0) ''runs'' ''VP'' 0) ''S2'' (Suc 0) False (- 1)],
      finalized = [Leaf 0 ''John'' ''NP'' 0, Leaf (Suc 0) ''runs'' ''VP'' 0, Leaf 0 ''John'' ''N'' (- 1)],
      parses = []\<rparr>"
  by (simp add: step_defs)

lemma toy_step4_on:
  "step (toy_engine True (Suc 0)) toy_sentence
     \<lparr>agenda = [(- 5, 3, Leaf (Suc 0) ''runs'' ''NP'' (- 5)),
                (- 1, 4, Binary (Leaf 0 ''John'' ''N'' (- 1)) (Leaf (Suc 0) ''runs'' ''VP'' 0) ''S2'' (Suc 0) False (- 1))],
      pushed = 5,
      cells = [Binary (Leaf 0 ''John'' ''N'' (- 1)) (Leaf (Suc 0) ''runs'' ''VP'' 0) ''S2'' (Suc 0) False (- 1)],
      finalized = [Leaf 0 ''John'' ''NP'' 0, Leaf (Suc 0) ''runs'' ''VP'' 0, Leaf 0 ''John'' ''N'' (- 1)],
      parses = []\<rparr> =
     \<lparr>agenda = [(- 5, 3, Leaf (Suc 0) ''runs'' ''NP'' (- 5))],
      pushed = 5,
      cells = [Binary (Leaf 0 ''John'' ''N'' (- 1)) (Leaf (Suc 0) ''runs'' ''VP'' 0) ''S2'' (Suc 0) False (- 1)],
      finalized = [Leaf 0 ''John'' ''NP'' 0, Leaf (Suc 0) ''runs'' ''VP'' 0, Leaf 0 ''John'' ''N'' (- 1),
                   Binary (Leaf 0 ''John'' ''N'' (- 1)) (Leaf (Suc 0) ''runs'' ''VP'' 0) ''S2'' (Suc 0) False (- 1)],
      parses = [(Binary (Leaf 0 ''John'' ''N'' (- 1)) (Leaf (Suc 0) ''runs'' ''VP'' 0) ''S2'' (Suc 0) False (- 1), - 1)]\<rparr>"
  by (simp add: step_defs)

lemma toy_on:
  "parse_sentence (toy_engine True 1) toy_sentence =
     [(Binary (Leaf 0 ''John'' ''N'' (- 1)) (Leaf 1 ''runs'' ''VP'' 0) ''S2'' 1 False (- 1), - 1)]"
  by (simp add: parse_sentence_def toy_initial run_unfold toy_step1 toy_step2_on toy_step3_on
        toy_step4_on)

text \<open>
  Claim C8, amended. Enabling the seen-rules filter removes admissible derivations and
  adds none: a derivation that is admissible with the filter is admissible without it, and
  every parse that the engine returns with the filter enabled is an admissible derivation
  of the engine without the filter. (It need not be among the parses returned without the
  filter.)
\<close>

theorem seen_rules_remove_only:
  "(admissible (E\<lparr>e_use_seen_rules := True\<rparr>) S d \<longrightarrow>
      admissible (E\<lparr>e_use_seen_rules := False\<rparr>) S d) \<and>
   (\<forall>x \<in> set (parse_sentence (E\<lparr>e_use_seen_rules := True\<rparr>) S).
      admissible (E\<lparr>e_use_seen_rules := False\<rparr>) S (fst x))"
proof -
  let ?on = "E\<lparr>e_use_seen_rules := True\<rparr>"
  have "all_items (admissible ?on S) (run ?on S (e_max_steps ?on) (initial ?on S))"
    by (intro all_items_run all_items_initial)
  then have "\<forall>x \<in> set (parse_sentence ?on S). admissible ?on S (fst x)"
    by (simp add: parse_sentence_def all_items_def)
  with admissible_filter [of E S] show ?thesis by blast
qed

text \<open>
  An instance: the parse of the toy sentence that the engine returns with the filter is
  admissible without the filter.
\<close>

theorem seen_rules_remove_only_witness:
  "admissible (toy_engine False 1) toy_sentence
     (Binary (Leaf 0 ''John'' ''N'' (- 1)) (Leaf 1 ''runs'' ''VP'' 0) ''S2'' 1 False (- 1))"
proof -
  have on: "(toy_engine False 1)\<lparr>e_use_seen_rules := True\<rparr> = toy_engine True 1"
    and off: "(toy_engine False 1)\<lparr>e_use_seen_rules := False\<rparr> = toy_engine False 1"
    by (simp_all add: toy_engine_def)
  from seen_rules_remove_only [of "toy_engine False 1" toy_sentence]
  have "\<forall>x \<in> set (parse_sentence (toy_engine True 1) toy_sentence).
          admissible (toy_engine False 1) toy_sentence (fst x)"
    unfolding on off by blast
  then show ?thesis unfolding toy_on by simp
qed

text \<open>
  Claim C8 as stated fails. For the toy sentence the engine returns, with the filter, a
  parse that it does not return without the filter: asked for the best parse, it answers
  without the filter with the parse that has \<open>John\<close> as \<open>NP\<close>, and with the filter,
  which rules that parse out, with the one that has \<open>John\<close> as \<open>N\<close>.
\<close>

theorem seen_rules_subset_counterexample:
  "parse_sentence (toy_engine True 1) toy_sentence =
     [(Binary (Leaf 0 ''John'' ''N'' (- 1)) (Leaf 1 ''runs'' ''VP'' 0) ''S2'' 1 False (- 1), - 1)] \<and>
   parse_sentence (toy_engine False 1) toy_sentence =
     [(Binary (Leaf 0 ''John'' ''NP'' 0) (Leaf 1 ''runs'' ''VP'' 0) ''S'' 0 False 0, 0)] \<and>
   \<not> set (parse_sentence (toy_engine True 1) toy_sentence)
       \<subseteq> set (parse_sentence (toy_engine False 1) toy_sentence)"
  unfolding toy_on toy_off by simp
subsection \<open>What a round of the search changes\<close>

lemma push_fields [simp]:
  "parses (push S d s) = parses s" "finalized (push S d s) = finalized s"
  "cells (push S d s) = cells s"
  "agenda (push S d s) =
     agenda s @ [(priority S d, pushed s, d)]"
  by (simp_all add: push_def)

lemma offer_fields [simp]:
  "parses (offer E S d s) = parses s" "finalized (offer E S d s) = finalized s"
  by (simp_all add: offer_def)

lemma offer_agenda:
  "agenda (offer E S d s) = agenda s \<or>
   agenda (offer E S d s) =
     agenda s @ [(priority S d, pushed s, d)]"
  by (simp add: offer_def)

lemma fold_push_fields [simp]:
  "parses (fold (\<lambda>x. push S (f x)) xs s) = parses s"
  "finalized (fold (\<lambda>x. push S (f x)) xs s) = finalized s"
  by (induction xs arbitrary: s) simp_all

lemma fold_offer_fields [simp]:
  "parses (fold (offer E S) ds s) = parses s"
  "finalized (fold (offer E S) ds s) = finalized s"
  by (induction ds arbitrary: s) simp_all

lemma fold_pairings_fields [simp]:
  "parses (fold (\<lambda>nb. fold (offer E S) (pairings E S d nb)) nbs s) = parses s"
  "finalized (fold (\<lambda>nb. fold (offer E S) (pairings E S d nb)) nbs s) = finalized s"
  by (induction nbs arbitrary: s) simp_all


lemma step_parses:
  "parses (step E S s) =
     (let d = snd (snd (best (hd (agenda s)) (tl (agenda s))))
      in if signature d \<notin> set (map signature (finalized s)) \<and>
            span_length d = length (words S) \<and> category d \<in> set (e_possible_root_cats E)
         then parses s @ [(d, inside d)] else parses s)"
  by (simp add: step_def Let_def)



lemma initial_fields [simp]: "parses (initial E S) = []" "finalized (initial E S) = []"
proof -
  have "\<And>s. parses (fold (\<lambda>i. fold (\<lambda>x. push S (leaf S i x)) (candidates E S i)) js s) = parses s
        \<and> finalized (fold (\<lambda>i. fold (\<lambda>x. push S (leaf S i x)) (candidates E S i)) js s) = finalized s"
    for js
    by (induction js) simp_all
  then show "parses (initial E S) = []" "finalized (initial E S) = []"
    by (simp_all add: initial_def)
qed


lemma step_parses_length: "length (parses (step E S s)) \<le> Suc (length (parses s))"
  by (simp add: step_parses Let_def)

lemma run_parses_length:
  "length (parses s) \<le> e_nbest E \<Longrightarrow> length (parses (run E S steps s)) \<le> e_nbest E"
proof (induction steps arbitrary: s)
  case 0
  then show ?case by simp
next
  case (Suc steps)
  show ?case
  proof (cases "e_nbest E \<le> length (parses s) \<or> agenda s = []")
    case True
    with Suc.prems show ?thesis by simp
  next
    case False
    then have "length (parses s) < e_nbest E" by simp
    with step_parses_length [of E S s] have "length (parses (step E S s)) \<le> e_nbest E" by simp
    from Suc.IH [OF this] False show ?thesis by simp
  qed
qed

subsection \<open>Scores within their bounds\<close>












lemma combine_fields [simp]:
  "span_start (combine S l r x) = span_start l"
  "span_length (combine S l r x) = span_length l + span_length r"
  "head_token (combine S l r x) = (if snd (snd x) then head_token l else head_token r)"
  "category (combine S l r x) = fst x"
  by (simp_all add: combine_def Let_def)











subsection \<open>The parses come out in the order of their scores\<close>



text \<open>An entry of the agenda is there as it was, or was pushed with its priority.\<close>

lemma fold_push_agenda:
  "v \<in> set (agenda (fold (\<lambda>x. push S (f x)) xs s)) \<Longrightarrow>
     v \<in> set (agenda s) \<or> (\<exists>x \<in> set xs. snd (snd v) = f x \<and> fst v = priority S (f x))"
proof (induction xs arbitrary: s)
  case Nil
  then show ?case by simp
next
  case (Cons x xs)
  from Cons.IH [of "push S (f x) s"] Cons.prems show ?case by auto
qed

lemma fold_offer_agenda:
  "v \<in> set (agenda (fold (offer E S) ds s)) \<Longrightarrow>
     v \<in> set (agenda s) \<or> (\<exists>p \<in> set ds. snd (snd v) = p \<and> fst v = priority S p)"
proof (induction ds arbitrary: s)
  case Nil
  then show ?case by simp
next
  case (Cons d ds)
  from Cons.IH [of "offer E S d s"] Cons.prems
  have "v \<in> set (agenda (offer E S d s)) \<or> (\<exists>p \<in> set ds. snd (snd v) = p \<and> fst v = priority S p)"
    by simp
  with offer_agenda [of E S d s] show ?case by auto
qed

lemma fold_pairings_agenda:
  "v \<in> set (agenda (fold (\<lambda>nb. fold (offer E S) (pairings E S d nb)) nbs s)) \<Longrightarrow>
     v \<in> set (agenda s) \<or>
     (\<exists>nb \<in> set nbs. \<exists>p \<in> set (pairings E S d nb). snd (snd v) = p \<and> fst v = priority S p)"
proof (induction nbs arbitrary: s)
  case Nil
  then show ?case by simp
next
  case (Cons nb nbs)
  from Cons.IH [of "fold (offer E S) (pairings E S d nb) s"] Cons.prems
  have "v \<in> set (agenda (fold (offer E S) (pairings E S d nb) s)) \<or>
        (\<exists>nb \<in> set nbs. \<exists>p \<in> set (pairings E S d nb). snd (snd v) = p \<and> fst v = priority S p)"
    by simp
  with fold_offer_agenda [of v E S "pairings E S d nb" s] show ?case by auto
qed

text \<open>Where the entries of the agenda come from after a round.\<close>

lemma step_agenda:
  assumes v: "v \<in> set (agenda (step E S s))"
  defines "d \<equiv> snd (snd (best (hd (agenda s)) (tl (agenda s))))"
  shows "v \<in> set (agenda s) \<or>
     (\<exists>x \<in> set (apply_unary E S d).
        snd (snd v) = Unary d (fst x) (snd x) (inside d) \<and> fst v = priority S (snd (snd v))) \<or>
     (\<exists>nb \<in> set (finalized s). \<exists>p \<in> set (pairings E S d nb).
        snd (snd v) = p \<and> fst v = priority S p)"
proof -
  let ?top = "best (hd (agenda s)) (tl (agenda s))"
  let ?s1 = "s\<lparr>agenda := remove1 ?top (agenda s)\<rparr>"
  let ?s2 = "?s1\<lparr>finalized := finalized ?s1 @ [d]\<rparr>"
  let ?s3 = "if span_length d = length (words S) \<and> category d \<in> set (e_possible_root_cats E)
             then ?s2\<lparr>parses := parses ?s2 @ [(d, inside d)]\<rparr> else ?s2"
  let ?s4 = "fold (\<lambda>x. push S (Unary d (fst x) (snd x) (inside d))) (apply_unary E S d) ?s3"
  let ?s5 = "fold (\<lambda>nb. fold (offer E S) (pairings E S d nb)) (finalized ?s1) ?s4"
  have a3: "set (agenda ?s3) \<subseteq> set (agenda s)"
    by (auto dest: set_remove1_subset [THEN subsetD])
  from v have "v \<in> set (agenda ?s1) \<or> v \<in> set (agenda ?s3) \<or> v \<in> set (agenda ?s5)"
    unfolding step_def Let_def d_def by (auto split: if_splits)
  then show ?thesis
  proof (elim disjE)
    assume "v \<in> set (agenda ?s1)"
    then show ?thesis by (auto dest: set_remove1_subset [THEN subsetD])
  next
    assume "v \<in> set (agenda ?s3)"
    with a3 show ?thesis by blast
  next
    assume "v \<in> set (agenda ?s5)"
    from fold_pairings_agenda [OF this]
    have "v \<in> set (agenda ?s4) \<or>
        (\<exists>nb \<in> set (finalized s). \<exists>p \<in> set (pairings E S d nb).
           snd (snd v) = p \<and> fst v = priority S p)" by simp
    then show ?thesis
    proof
      assume "v \<in> set (agenda ?s4)"
      from fold_push_agenda [OF this] a3 show ?thesis by auto
    qed blast
  qed
qed

lemma priced_step: "priced S s \<Longrightarrow> priced S (step E S s)"
  unfolding priced_def using step_agenda [of _ E S s] by fastforce

lemma priced_run: "priced S s \<Longrightarrow> priced S (run E S steps s)"
  by (induction steps arbitrary: s) (auto simp: priced_step)








lemma parse_sentence_length: "length (parse_sentence E S) \<le> e_nbest E"
  using run_parses_length [of "initial E S" E S "e_max_steps E"]
  by (simp add: parse_sentence_def)

subsection \<open>The n best parses of a batch\<close>




lemma marshal_update [simp]:
  "marshal (native\<lparr>ParseSentences := engine\<rparr>) cast self tags = marshal native cast self tags"
  by (simp add: marshal_def)






subsection \<open>Two runs of a whole call\<close>

text \<open>
  The search for the example sentence, step by step: first with dependency scores that are
  all 0, then with the score 5 for \<open>John\<close> with ROOT as its head. In the second run the
  leaf \<open>runs\<close> gets the priority 5 and is popped first, and the parse with \<open>John\<close> as
  \<open>N\<close>, which has \<open>John\<close> as its head and is scored with that 5, is built only after
  the other parse has been popped.
\<close>

lemma demo_fields [simp]:
  "e_nbest demo_engine = 2"
  "e_possible_root_cats demo_engine = [''S'', ''S2'']"
  "e_pruning_size demo_engine = 2"
  "e_max_length demo_engine = 250"
  "e_max_steps demo_engine = 10"
  "e_unary_rules demo_engine c = []"
  by (simp_all add: demo_engine_def)

lemma demo_sentence_fields [simp]:
  "words (demo_sentence x) = [''John'', ''runs'']"
  "rejects (demo_sentence x) d = False"
  "p_dep (demo_sentence x) = [[x, 0, 0], [0, 0, 0]]"
  by (simp_all add: demo_sentence_def)



lemma demo_outside [simp]:
  "outside (demo_sentence x) s l = (if 0 < s \<or> s + l = 0 then max x 0 else 0)"
  by (auto simp: outside_def best_tag_def best_dep_def demo_sentence_def eval_nat_numeral upt_rec)

















text \<open>
  The call for the example: the configuration of the parser converts, the matrices pass the
  shape check, and the engine parses the sentence.
\<close>

lemma demo_parser_constructed:
  "construct (\<lambda>self. EnglishCCGParser_init [] Inr self Map.empty [''NP'', ''N'', ''VP''] [] []
                demo_kwargs)
     unset_subclass_parser = Inr demo_parser"
  by (simp add: construct_def EnglishCCGParser_init_def demo_kwargs_def arg_def list_or_def
        Let_def and_then_Inr setattr_max_steps_def unset_subclass_parser_def unset_parser_def
        demo_parser_def)






end
